theory Spec2Isabelle
  imports Main "HOL-Library.Sublist"
begin

section \<open>Values, documents and the runtime\<close>

text \<open>
  The server (\<^verbatim>\<open>src/index.js\<close>) is an Express application over the native MongoDB
  driver. Request bodies arrive as parsed JSON and documents are stored as BSON, so both are
  modelled by one datatype of values. JSON carries neither \<^verbatim>\<open>NaN\<close> nor
  \<^verbatim>\<open>undefined\<close>; \<open>JUndefined\<close> is only what reading an absent property yields.
  A number is a JavaScript double that holds an integer (a counter, a time in
  milliseconds): every integer up to \<open>2 ^ 53\<close> in magnitude is one, and beyond that the
  doubles lie 2, 4, 8, ... apart. A string is the list of the bytes of its UTF-8 encoding.
\<close>

datatype jsval =
    JUndefined
  | JNull
  | JBool bool
  | JNum int
  | JStr string
  | JDate int
  | JOid string
  | JArr "jsval list"
  | JObj "(string \<times> jsval) list"

text \<open>JavaScript truthiness: what \<^verbatim>\<open>if (v)\<close>, \<^verbatim>\<open>!v\<close>, \<^verbatim>\<open>v || d\<close> and \<^verbatim>\<open>a && b\<close> test.\<close>

fun truthy :: "jsval \<Rightarrow> bool" where
  "truthy JUndefined = False"
| "truthy JNull = False"
| "truthy (JBool b) = b"
| "truthy (JNum n) = (n \<noteq> 0)"
| "truthy (JStr s) = (s \<noteq> [])"
| "truthy (JDate t) = True"
| "truthy (JOid h) = True"
| "truthy (JArr xs) = True"
| "truthy (JObj kvs) = True"

text \<open>A document (and a JSON request body) maps property names to values.\<close>

type_synonym doc = "string \<rightharpoonup> jsval"

definition fld :: "doc \<Rightarrow> string \<Rightarrow> jsval" where
  "fld d k = (case d k of None \<Rightarrow> JUndefined | Some v \<Rightarrow> v)"

text \<open>
  What the code takes from the JavaScript engine, the BSON library and the database server
  rather than from this repository is a parameter of the model:
  \<^item> \<open>ObjectId_isValid\<close>, \<open>ObjectId_hex\<close>: \<^verbatim>\<open>ObjectId.isValid(s)\<close> and the hexadecimal form of
    \<^verbatim>\<open>new ObjectId(s)\<close>;
  \<^item> \<open>Date_time\<close>: the time value of \<^verbatim>\<open>new Date(v)\<close>, \<open>None\<close> when it is \<^verbatim>\<open>NaN\<close>
    (an invalid date);
  \<^item> \<open>RegExp_engine\<close>: \<^verbatim>\<open>new RegExp(s, "i")\<close> for a pattern with metacharacters other than
    the dot: \<open>None\<close> when the constructor throws a \<^verbatim>\<open>SyntaxError\<close>, otherwise the test the
    pattern denotes;
  \<^item> \<open>relational_ge\<close>: the coercing comparison \<^verbatim>\<open>a >= b\<close> when an operand is not a number;
  \<^item> \<open>toString\<close>: \<^verbatim>\<open>v.toString()\<close>;
  \<^item> \<open>bson_compare\<close>: the server's sort comparison of two values that are not both dates.
\<close>

record runtime =
  ObjectId_isValid :: "string \<Rightarrow> bool"
  ObjectId_hex :: "string \<Rightarrow> string"
  Date_time :: "jsval \<Rightarrow> int option"
  RegExp_engine :: "string \<Rightarrow> (string \<Rightarrow> bool) option"
  relational_ge :: "jsval \<Rightarrow> jsval \<Rightarrow> bool"
  toString :: "jsval \<Rightarrow> string"
  bson_compare :: "jsval \<Rightarrow> jsval \<Rightarrow> bool"

text \<open>\<^verbatim>\<open>a >= b\<close>: numeric on two numbers, the engine's coercion otherwise.\<close>

fun js_ge :: "runtime \<Rightarrow> jsval \<Rightarrow> jsval \<Rightarrow> bool" where
  "js_ge rt (JNum a) (JNum b) = (b \<le> a)"
| "js_ge rt a b = relational_ge rt a b"

text \<open>
  Double arithmetic on integers. \<open>double_ulp m\<close> is the distance between neighbouring
  doubles at magnitude \<open>m\<close>; \<open>round_double x\<close> is the double nearest to the integer
  \<open>x\<close>, the one with the even significand on a tie: what an addition or a conversion
  whose exact result is \<open>x\<close> returns (below the overflow to infinity).
\<close>

fun double_ulp :: "nat \<Rightarrow> nat" where
  "double_ulp m = (if m < 9007199254740992 then 1 else 2 * double_ulp (m div 2))"

declare double_ulp.simps [simp del]

definition round_double :: "int \<Rightarrow> int" where
  "round_double x =
     (let m = nat \<bar>x\<bar>;
          u = double_ulp m;
          q = m div u;
          r = m mod u;
          q' = (if 2 * r < u then q
                else if u < 2 * r then q + 1
                else if even q then q else q + 1)
      in sgn x * int (q' * u))"

section \<open>The two collections\<close>

text \<open>
  A membership row, as \<^verbatim>\<open>ucDoc\<close> of the join route builds it; \<open>uc_id\<close> is the
  \<^verbatim>\<open>_id\<close> the driver adds on insertion. \<open>user\<close> and \<open>challenge\<close> are ObjectIds, held
  in hexadecimal form.
\<close>

record userChallenge =
  uc_id :: string
  user :: string
  challenge :: string
  joinedAt :: int
  progress :: int
  status :: string
  meta :: jsval
  createdAt :: int
  updatedAt :: int

record store =
  challenges :: "doc list"
  userChallenges :: "userChallenge list"

text \<open>What a store call or the handler itself throws, with the \<^verbatim>\<open>code\<close> and
  \<^verbatim>\<open>message\<close> properties the \<^verbatim>\<open>catch\<close> blocks read.\<close>

datatype exn =
    Thrown int string
  | MongoServerError int string
  | StoreFailure
  | BSONError
  | SyntaxError

fun err_code :: "exn \<Rightarrow> int option" where
  "err_code (Thrown c m) = Some c"
| "err_code (MongoServerError c m) = Some c"
| "err_code StoreFailure = None"
| "err_code BSONError = None"
| "err_code SyntaxError = None"

fun err_message :: "exn \<Rightarrow> string" where
  "err_message (Thrown c m) = m"
| "err_message (MongoServerError c m) = m"
| "err_message StoreFailure = ''store unavailable''"
| "err_message BSONError = ''input must be a 24 character hex string''"
| "err_message SyntaxError = ''Invalid regular expression''"

text \<open>An HTTP response: a status with a message, or a status with a payload.\<close>

datatype 'a response = Fail nat string | Success nat 'a

text \<open>\<^verbatim>\<open>findOne({ _id: new ObjectId(id) })\<close>.\<close>

definition findOne :: "doc list \<Rightarrow> string \<Rightarrow> doc option" where
  "findOne coll oid = List.find (\<lambda>d. d ''_id'' = Some (JOid oid)) coll"

text \<open>
  \<^verbatim>\<open>updateOne({ _id }, u)\<close>: the first document with that \<^verbatim>\<open>_id\<close> is replaced by
  what the update \<open>u\<close> makes of it; an update the server rejects raises; no match is no
  error.
\<close>

fun updateOne :: "(doc \<Rightarrow> exn + doc) \<Rightarrow> string \<Rightarrow> doc list \<Rightarrow> exn + doc list" where
  "updateOne u oid [] = Inr []"
| "updateOne u oid (d # ds) =
     (if d ''_id'' = Some (JOid oid)
      then (case u d of Inl e \<Rightarrow> Inl e | Inr d' \<Rightarrow> Inr (d' # ds))
      else (case updateOne u oid ds of Inl e \<Rightarrow> Inl e | Inr ds' \<Rightarrow> Inr (d # ds')))"

text \<open>
  \<^verbatim>\<open>{ $inc: { participants: 1 }, $set: { updatedAt: new Date() } }\<close>. The server
  creates an absent field with the increment and rejects a field that is not a number
  (error 14, TypeMismatch). It adds in the type of the stored number. The driver stores a
  JavaScript integer as an int32 when it fits, and the sum is then exact (a 64-bit integer
  at overflow); it stores any other number as a double, and the sum is then the double
  nearest to it: from \<open>2 ^ 53\<close> on, the counter itself. (A 64-bit counter at
  \<open>2 ^ 53\<close> or more, which only that many increments produce, is not told apart.)
\<close>

definition inc_participants :: "int \<Rightarrow> doc \<Rightarrow> exn + doc" where
  "inc_participants now d =
     (case d ''participants'' of
        None \<Rightarrow> Inr (d(''participants'' \<mapsto> JNum 1, ''updatedAt'' \<mapsto> JDate now))
      | Some (JNum n) \<Rightarrow>
          Inr (d(''participants'' \<mapsto> JNum (round_double (n + 1)), ''updatedAt'' \<mapsto> JDate now))
      | Some _ \<Rightarrow> Inl (MongoServerError 14 ''Cannot apply inc to a value of non-numeric type''))"

text \<open>
  \<^verbatim>\<open>userChallenges.insertOne(ucDoc)\<close> under the unique indexes on \<^verbatim>\<open>_id\<close> and on
  \<^verbatim>\<open>{ user: 1, challenge: 1 }\<close> (\<^verbatim>\<open>initDb\<close>): a duplicate key is error 11000.
\<close>

definition insertOne_uc :: "userChallenge \<Rightarrow> userChallenge list \<Rightarrow> exn + userChallenge list" where
  "insertOne_uc r rows =
     (if list_ex (\<lambda>x. uc_id x = uc_id r \<or> (user x = user r \<and> challenge x = challenge r)) rows
      then Inl (MongoServerError 11000 ''E11000 duplicate key error'')
      else Inr (rows @ [r]))"

section \<open>The join route\<close>

text \<open>
  \<^verbatim>\<open>req.user\<close> as the authentication middleware sets it: \<open>user_id\<close> is the
  \<^verbatim>\<open>id\<close> property, \<open>None\<close> for \<^verbatim>\<open>null\<close>.
\<close>

record authUser =
  uid :: string
  isAdmin :: bool
  user_id :: "string option"

text \<open>
  A session with an open transaction: the committed store, which is what every other
  reader sees and what remains when the transaction is aborted, and the transaction's
  working copy. A store call that carries \<^verbatim>\<open>{ session }\<close> reads and writes the working
  copy; a call without it reads and writes the committed store at once.
\<close>

record transaction =
  committed :: store
  working :: store

definition session_view :: "bool \<Rightarrow> transaction \<Rightarrow> store" where
  "session_view in_session t = (if in_session then working t else committed t)"

definition session_write :: "bool \<Rightarrow> (store \<Rightarrow> store) \<Rightarrow> transaction \<Rightarrow> transaction" where
  "session_write in_session f t =
     (if in_session then t\<lparr> working := f (working t) \<rparr> else t\<lparr> committed := f (committed t) \<rparr>)"

definition tx_findOne :: "bool \<Rightarrow> string \<Rightarrow> transaction \<Rightarrow> doc option" where
  "tx_findOne in_session oid t = findOne (challenges (session_view in_session t)) oid"

definition tx_insertOne_uc :: "bool \<Rightarrow> userChallenge \<Rightarrow> transaction \<Rightarrow> exn + transaction" where
  "tx_insertOne_uc in_session r t =
     (case insertOne_uc r (userChallenges (session_view in_session t)) of
        Inl e \<Rightarrow> Inl e
      | Inr rows \<Rightarrow> Inr (session_write in_session (\<lambda>st. st\<lparr> userChallenges := rows \<rparr>) t))"

definition tx_updateOne ::
  "bool \<Rightarrow> (doc \<Rightarrow> exn + doc) \<Rightarrow> string \<Rightarrow> transaction \<Rightarrow> exn + transaction" where
  "tx_updateOne in_session u oid t =
     (case updateOne u oid (challenges (session_view in_session t)) of
        Inl e \<Rightarrow> Inl e
      | Inr chs \<Rightarrow> Inr (session_write in_session (\<lambda>st. st\<lparr> challenges := chs \<rparr>) t))"

text \<open>
  \<^verbatim>\<open>session.withTransaction(callback)\<close>: the callback runs on a transaction opened on
  the store; when it returns, the working copy is committed, and when it throws, or the
  commit fails, the transaction is aborted and the committed store is what is left.
\<close>

definition withTransaction ::
  "bool \<Rightarrow> (transaction \<Rightarrow> (exn + 'a) \<times> transaction) \<Rightarrow> store \<Rightarrow> (exn + 'a) \<times> store" where
  "withTransaction commit_fails callback st =
     (case callback \<lparr> committed = st, working = st \<rparr> of
        (Inl err, t) \<Rightarrow> (Inl err, committed t)
      | (Inr x, t) \<Rightarrow>
          if commit_fails then (Inl StoreFailure, committed t) else (Inr x, working t))"

text \<open>
  The callback of the join route (lines 327-364): what it returns or throws, and the
  transaction as it leaves it. All three store calls carry \<^verbatim>\<open>{ session }\<close>.
  \<open>fault = Some n\<close> makes the \<open>n\<close>-th store call (0 \<^verbatim>\<open>findOne\<close>, 1 \<^verbatim>\<open>insertOne\<close>,
  2 \<^verbatim>\<open>updateOne\<close>, 3 the commit) fail with an infrastructure error.
\<close>

definition join_transaction ::
  "runtime \<Rightarrow> int \<Rightarrow> string \<Rightarrow> nat option \<Rightarrow> string \<Rightarrow> string \<Rightarrow> transaction
     \<Rightarrow> (exn + userChallenge) \<times> transaction" where
  "join_transaction rt now new_id fault userId challengeId t =
     (if fault = Some 0 then (Inl StoreFailure, t)
      else case tx_findOne True (ObjectId_hex rt challengeId) t of
        None \<Rightarrow> (Inl (Thrown 404 ''Challenge not found''), t)
      | Some ch \<Rightarrow>
          if truthy (fld ch ''maxParticipants'') \<and>
             js_ge rt (fld ch ''participants'') (fld ch ''maxParticipants'')
          then (Inl (Thrown 400 ''Challenge is full''), t)
          else
            let ucDoc = \<lparr> uc_id = new_id,
                          user = ObjectId_hex rt userId,
                          challenge = ObjectId_hex rt challengeId,
                          joinedAt = now, progress = 0, status = ''joined'', meta = JNull,
                          createdAt = now, updatedAt = now \<rparr>
            in if fault = Some 1 then (Inl StoreFailure, t)
               else case tx_insertOne_uc True ucDoc t of
                 Inl e \<Rightarrow> (Inl e, t)
               | Inr t1 \<Rightarrow>
                   if fault = Some 2 then (Inl StoreFailure, t1)
                   else case tx_updateOne True (inc_participants now)
                               (ObjectId_hex rt challengeId) t1 of
                     Inl e \<Rightarrow> (Inl e, t1)
                   | Inr t2 \<Rightarrow> (Inr ucDoc, t2))"

text \<open>The \<^verbatim>\<open>catch\<close> block of the join route (lines 368-381).\<close>

definition join_catch :: "exn \<Rightarrow> 'a response" where
  "join_catch err =
     (if err_code err = Some 11000 then Fail 409 ''User already joined this challenge''
      else if err_code err = Some 404
        then Fail 404 (if err_message err \<noteq> [] then err_message err else ''Not found'')
      else if err_code err = Some 400
        then Fail 400 (if err_message err \<noteq> [] then err_message err else ''Bad request'')
      else Fail 500 ''Failed to join'')"

text \<open>
  \<^verbatim>\<open>POST /challenges/join/:id\<close> (lines 310-382): the response and the store afterwards.
\<close>

definition join_challenge ::
  "runtime \<Rightarrow> int \<Rightarrow> string \<Rightarrow> nat option \<Rightarrow> authUser option \<Rightarrow> string \<Rightarrow> store
     \<Rightarrow> userChallenge response \<times> store" where
  "join_challenge rt now new_id fault req_user challengeId st =
     (case req_user of
        None \<Rightarrow> (Fail 401 ''Unauthorized'', st)
      | Some u \<Rightarrow>
          (case user_id u of
             None \<Rightarrow> (Fail 400 ''Your mock-user token must include a valid ObjectId after colon (mock-user:<id>)'', st)
           | Some userId \<Rightarrow>
               if userId = [] \<or> \<not> ObjectId_isValid rt userId
               then (Fail 400 ''Your mock-user token must include a valid ObjectId after colon (mock-user:<id>)'', st)
               else if \<not> ObjectId_isValid rt challengeId
               then (Fail 400 ''Invalid challenge id'', st)
               else (case withTransaction (fault = Some 3)
                            (join_transaction rt now new_id fault userId challengeId) st of
                       (Inr createdUC, st') \<Rightarrow> (Success 201 createdUC, st')
                     | (Inl err, st') \<Rightarrow> (join_catch err, st'))))"

section \<open>Creating and updating a challenge\<close>

text \<open>\<^verbatim>\<open>parseDateSafe\<close> (lines 99-103): \<open>None\<close> is \<^verbatim>\<open>null\<close>, \<open>Some t\<close> the date with
  time value \<open>t\<close>.\<close>

definition parseDateSafe :: "runtime \<Rightarrow> jsval \<Rightarrow> int option" where
  "parseDateSafe rt v = (if \<not> truthy v then None else Date_time rt v)"

text \<open>\<^verbatim>\<open>v || null\<close>.\<close>

definition or_null :: "jsval \<Rightarrow> jsval" where
  "or_null v = (if truthy v then v else JNull)"

text \<open>\<^verbatim>\<open>new ObjectId(s)\<close>, which throws on a string that is not an ObjectId.\<close>

definition new_ObjectId :: "runtime \<Rightarrow> string \<Rightarrow> exn + jsval" where
  "new_ObjectId rt s = (if ObjectId_isValid rt s then Inr (JOid (ObjectId_hex rt s)) else Inl BSONError)"

text \<open>The document literal \<^verbatim>\<open>doc\<close> of the create route (lines 204-223).\<close>

definition challenge_doc :: "jsval \<Rightarrow> int \<Rightarrow> int \<Rightarrow> int \<Rightarrow> doc \<Rightarrow> doc" where
  "challenge_doc owner startDate endDate now body =
     [''title'' \<mapsto> fld body ''title'',
      ''slug'' \<mapsto> fld body ''slug'',
      ''description'' \<mapsto> fld body ''description'',
      ''category'' \<mapsto> or_null (fld body ''category''),
      ''tags'' \<mapsto> (case fld body ''tags'' of
                     JArr xs \<Rightarrow> JArr xs
                   | t \<Rightarrow> if truthy t then JArr [t] else JArr []),
      ''owner'' \<mapsto> owner,
      ''startDate'' \<mapsto> JDate startDate,
      ''endDate'' \<mapsto> JDate endDate,
      ''participants'' \<mapsto> (case fld body ''participants'' of JNum n \<Rightarrow> JNum n | _ \<Rightarrow> JNum 0),
      ''maxParticipants'' \<mapsto> or_null (fld body ''maxParticipants''),
      ''location'' \<mapsto> or_null (fld body ''location''),
      ''image'' \<mapsto> or_null (fld body ''image''),
      ''isPublished'' \<mapsto> (case fld body ''isPublished'' of JBool b \<Rightarrow> JBool b | _ \<Rightarrow> JBool True),
      ''metadata'' \<mapsto> or_null (fld body ''metadata''),
      ''createdAt'' \<mapsto> JDate now,
      ''updatedAt'' \<mapsto> JDate now]"

text \<open>
  The keys a document contributes to the unique index on \<^verbatim>\<open>slug\<close>: an absent field is
  indexed as \<^verbatim>\<open>null\<close>, an array by its elements.
\<close>

definition slug_keys :: "doc \<Rightarrow> jsval list" where
  "slug_keys d =
     (case d ''slug'' of
        None \<Rightarrow> [JNull]
      | Some (JArr []) \<Rightarrow> [JUndefined]
      | Some (JArr (x # xs)) \<Rightarrow> x # xs
      | Some v \<Rightarrow> [v])"

definition slug_clash :: "doc \<Rightarrow> doc \<Rightarrow> bool" where
  "slug_clash d x = list_ex (\<lambda>k. k \<in> set (slug_keys x)) (slug_keys d)"

text \<open>\<^verbatim>\<open>challenges.insertOne(doc)\<close>: the driver adds \<^verbatim>\<open>_id\<close>; the unique indexes on
  \<^verbatim>\<open>_id\<close> and \<^verbatim>\<open>slug\<close> reject a duplicate with error 11000.\<close>

definition insertOne_challenge :: "string \<Rightarrow> doc \<Rightarrow> doc list \<Rightarrow> exn + (doc \<times> doc list)" where
  "insertOne_challenge new_id d coll =
     (let d' = d(''_id'' \<mapsto> JOid new_id)
      in if list_ex (\<lambda>x. x ''_id'' = Some (JOid new_id) \<or> slug_clash d' x) coll
         then Inl (MongoServerError 11000 ''E11000 duplicate key error'')
         else Inr (d', coll @ [d']))"

text \<open>The loop over \<^verbatim>\<open>required\<close> (lines 194-198): the first required field that is
  falsy in the body, if any.\<close>

definition first_missing :: "doc \<Rightarrow> string option" where
  "first_missing body =
     List.find (\<lambda>f. \<not> truthy (fld body f))
       [''title'', ''slug'', ''description'', ''startDate'', ''endDate'']"

text \<open>The \<^verbatim>\<open>catch\<close> block of the create route (lines 227-232).\<close>

definition create_catch :: "exn \<Rightarrow> 'a response" where
  "create_catch err =
     (if err_code err = Some 11000 then Fail 409 ''Slug already exists''
      else Fail 500 ''Server error'')"

text \<open>\<^verbatim>\<open>req.user.id ? new ObjectId(req.user.id) : null\<close> (line 210).\<close>

definition request_owner :: "runtime \<Rightarrow> authUser \<Rightarrow> exn + jsval" where
  "request_owner rt u =
     (case user_id u of
        None \<Rightarrow> Inr JNull
      | Some i \<Rightarrow> if i = [] then Inr JNull else new_ObjectId rt i)"

text \<open>
  \<^verbatim>\<open>POST /challenges\<close> (lines 189-233). Building the owner's ObjectId may throw;
  \<open>fault = Some 0\<close> makes the insertion fail with an infrastructure error.
\<close>

definition create_challenge ::
  "runtime \<Rightarrow> int \<Rightarrow> string \<Rightarrow> nat option \<Rightarrow> authUser option \<Rightarrow> doc \<Rightarrow> store
     \<Rightarrow> doc response \<times> store" where
  "create_challenge rt now new_id fault req_user body st =
     (case req_user of
        None \<Rightarrow> (Fail 401 ''Unauthorized'', st)
      | Some u \<Rightarrow>
          (case first_missing body of
             Some f \<Rightarrow> (Fail 400 (''Missing field: '' @ f), st)
           | None \<Rightarrow>
               (case (parseDateSafe rt (fld body ''startDate''),
                      parseDateSafe rt (fld body ''endDate'')) of
                  (Some startDate, Some endDate) \<Rightarrow>
                    (case request_owner rt u of
                       Inl err \<Rightarrow> (create_catch err, st)
                     | Inr owner \<Rightarrow>
                         if fault = Some 0 then (create_catch StoreFailure, st)
                         else (case insertOne_challenge new_id
                                      (challenge_doc owner startDate endDate now body)
                                      (challenges st) of
                                 Inl err \<Rightarrow> (create_catch err, st)
                               | Inr (d, coll) \<Rightarrow> (Success 201 d, st\<lparr> challenges := coll \<rparr>)))
                | _ \<Rightarrow> (Fail 400 ''Invalid date format'', st))))"

text \<open>
  The update data of \<^verbatim>\<open>PATCH /challenges/:id\<close> (lines 257-260): a copy of the body in
  which a truthy \<^verbatim>\<open>startDate\<close> or \<^verbatim>\<open>endDate\<close> is replaced by what
  \<^verbatim>\<open>parseDateSafe\<close> returns and \<^verbatim>\<open>updatedAt\<close> is the current time.
\<close>

definition date_or_null :: "int option \<Rightarrow> jsval" where
  "date_or_null r = (case r of None \<Rightarrow> JNull | Some t \<Rightarrow> JDate t)"

definition update_data :: "runtime \<Rightarrow> int \<Rightarrow> doc \<Rightarrow> doc" where
  "update_data rt now body =
     (let d1 = (if truthy (fld body ''startDate'')
                then body(''startDate'' \<mapsto> date_or_null (parseDateSafe rt (fld body ''startDate'')))
                else body);
          d2 = (if truthy (fld d1 ''endDate'')
                then d1(''endDate'' \<mapsto> date_or_null (parseDateSafe rt (fld d1 ''endDate'')))
                else d1)
      in d2(''updatedAt'' \<mapsto> JDate now))"

text \<open>
  \<^verbatim>\<open>{ $set: data }\<close> on one document: every field of \<open>data\<close> replaces or adds the field
  of that name. The server refuses a change of \<^verbatim>\<open>_id\<close> (error 66, ImmutableField). Field
  names are taken whole: the model is of plain names (\<open>plain_name\<close>), not of a name with
  a dot, which the server reads as a path into an embedded document, nor of an empty or
  dollar-prefixed one.
\<close>

definition plain_name :: "string \<Rightarrow> bool" where
  "plain_name k = (k \<noteq> [] \<and> hd k \<noteq> CHR ''$'' \<and> CHR ''.'' \<notin> set k)"

definition set_fields :: "doc \<Rightarrow> doc \<Rightarrow> exn + doc" where
  "set_fields data d =
     (case data ''_id'' of
        None \<Rightarrow> Inr (d ++ data)
      | Some v \<Rightarrow> if d ''_id'' = Some v then Inr (d ++ data)
                  else Inl (MongoServerError 66 ''would modify the immutable field _id''))"

text \<open>
  \<^verbatim>\<open>findOneAndUpdate({ _id }, { $set: data })\<close> under the unique index on
  \<^verbatim>\<open>slug\<close>: the updated document must not share a slug key with another document.
\<close>

definition findOneAndUpdate :: "doc \<Rightarrow> string \<Rightarrow> doc list \<Rightarrow> exn + (doc option \<times> doc list)" where
  "findOneAndUpdate data oid coll =
     (case updateOne (set_fields data) oid coll of
        Inl e \<Rightarrow> Inl e
      | Inr coll' \<Rightarrow>
          (case findOne coll' oid of
             None \<Rightarrow> Inr (None, coll')
           | Some d' \<Rightarrow>
               if list_ex (\<lambda>x. x ''_id'' \<noteq> d' ''_id'' \<and> slug_clash d' x) coll'
               then Inl (MongoServerError 11000 ''E11000 duplicate key error'')
               else Inr (Some d', coll')))"

text \<open>
  \<^verbatim>\<open>PATCH /challenges/:id\<close> (lines 238-275). \<open>fault = Some 0\<close> fails the
  \<^verbatim>\<open>findOne\<close>, \<open>Some 1\<close> the \<^verbatim>\<open>findOneAndUpdate\<close>. The payload is \<^verbatim>\<open>r.value\<close>.
\<close>

definition update_challenge ::
  "runtime \<Rightarrow> int \<Rightarrow> nat option \<Rightarrow> authUser option \<Rightarrow> string \<Rightarrow> doc \<Rightarrow> store
     \<Rightarrow> doc option response \<times> store" where
  "update_challenge rt now fault req_user id' body st =
     (case req_user of
        None \<Rightarrow> (Fail 401 ''Unauthorized'', st)
      | Some u \<Rightarrow>
          if \<not> ObjectId_isValid rt id' then (Fail 400 ''Invalid id'', st)
          else if fault = Some 0 then (Fail 500 ''Server error'', st)
          else (case findOne (challenges st) (ObjectId_hex rt id') of
                  None \<Rightarrow> (Fail 404 ''Not found'', st)
                | Some existing \<Rightarrow>
                    let isOwner = (truthy (fld existing ''owner'') \<and>
                                   (case user_id u of
                                      None \<Rightarrow> False
                                    | Some i \<Rightarrow> i \<noteq> [] \<and> toString rt (fld existing ''owner'') = i))
                    in if \<not> isOwner \<and> \<not> isAdmin u then (Fail 403 ''Forbidden'', st)
                       else if fault = Some 1 then (Fail 500 ''Server error'', st)
                       else (case findOneAndUpdate (update_data rt now body)
                                    (ObjectId_hex rt id') (challenges st) of
                               Inl err \<Rightarrow> (Fail 500 ''Server error'', st)
                             | Inr (value, coll) \<Rightarrow>
                                 (Success 200 value, st\<lparr> challenges := coll \<rparr>))))"

section \<open>The filter builder and the listing route\<close>

text \<open>
  A JavaScript number that need not be finite: what \<^verbatim>\<open>parseInt\<close> and the arithmetic
  on its results return. \<open>js_number x\<close> is the number that an exact integer result \<open>x\<close>
  becomes: the nearest double, or an infinity from \<open>2 ^ 1024\<close> on.
\<close>

datatype jsnum = NaN | Num int | PosInfinity | NegInfinity

definition js_number :: "int \<Rightarrow> jsnum" where
  "js_number x =
     (if 2 ^ 1024 \<le> \<bar>round_double x\<bar>
      then (if 0 < x then PosInfinity else NegInfinity)
      else Num (round_double x))"

text \<open>
  The white space and line terminators of JavaScript, in UTF-8: the six of ASCII, U+00A0
  in two bytes, and in three bytes U+1680, U+2000 to U+200A, U+2028, U+2029, U+202F,
  U+205F, U+3000 and U+FEFF.
\<close>

definition white1 :: "char \<Rightarrow> bool" where
  "white1 a = (a \<in> {CHR 0x09, CHR 0x0A, CHR 0x0B, CHR 0x0C, CHR 0x0D, CHR '' ''})"

definition white2 :: "char \<Rightarrow> char \<Rightarrow> bool" where
  "white2 a b = (a = CHR 0xC2 \<and> b = CHR 0xA0)"

definition white3 :: "char \<Rightarrow> char \<Rightarrow> char \<Rightarrow> bool" where
  "white3 a b c =
     ((a = CHR 0xE1 \<and> b = CHR 0x9A \<and> c = CHR 0x80) \<or>
      (a = CHR 0xE2 \<and> b = CHR 0x80 \<and>
         c \<in> {CHR 0x80, CHR 0x81, CHR 0x82, CHR 0x83, CHR 0x84, CHR 0x85, CHR 0x86, CHR 0x87,
              CHR 0x88, CHR 0x89, CHR 0x8A, CHR 0xA8, CHR 0xA9, CHR 0xAF}) \<or>
      (a = CHR 0xE2 \<and> b = CHR 0x81 \<and> c = CHR 0x9F) \<or>
      (a = CHR 0xE3 \<and> b = CHR 0x80 \<and> c = CHR 0x80) \<or>
      (a = CHR 0xEF \<and> b = CHR 0xBB \<and> c = CHR 0xBF))"

text \<open>
  Skipping the white space a string starts with. With \<open>backwards\<close> the string is read
  from its end (it is given reversed), so the bytes of a character come last first.
\<close>

fun js_whitespace :: "bool \<Rightarrow> string \<Rightarrow> string" where
  "js_whitespace backwards (a # b # c # r) =
     (if white1 a then js_whitespace backwards (b # c # r)
      else if (if backwards then white2 b a else white2 a b) then js_whitespace backwards (c # r)
      else if (if backwards then white3 c b a else white3 a b c) then js_whitespace backwards r
      else a # b # c # r)"
| "js_whitespace backwards [a, b] =
     (if white1 a then js_whitespace backwards [b]
      else if (if backwards then white2 b a else white2 a b) then []
      else [a, b])"
| "js_whitespace backwards [a] = (if white1 a then [] else [a])"
| "js_whitespace backwards [] = []"

definition digit_value :: "char \<Rightarrow> int option" where
  "digit_value c = map_of (zip ''0123456789'' [0, 1, 2, 3, 4, 5, 6, 7, 8, 9]) c"

text \<open>
  \<^verbatim>\<open>parseInt(s, 10)\<close>: leading white space is skipped, a sign is read, and the longest
  run of decimal digits that follows is the value, as a number: the double nearest to the
  integer the digits spell (the engine of Node.js rounds correctly; the standard would let
  it approximate after the 20th significant digit). \<^verbatim>\<open>NaN\<close> when there is no digit.
\<close>

fun digits_value :: "int \<Rightarrow> string \<Rightarrow> int" where
  "digits_value acc [] = acc"
| "digits_value acc (c # cs) =
     (case digit_value c of None \<Rightarrow> acc | Some v \<Rightarrow> digits_value (10 * acc + v) cs)"

definition unsigned_int :: "string \<Rightarrow> jsnum" where
  "unsigned_int s =
     (case s of
        [] \<Rightarrow> NaN
      | c # cs \<Rightarrow>
          (case digit_value c of None \<Rightarrow> NaN | Some v \<Rightarrow> js_number (digits_value 0 s)))"

definition negate :: "jsnum \<Rightarrow> jsnum" where
  "negate x =
     (case x of
        NaN \<Rightarrow> NaN
      | Num n \<Rightarrow> Num (- n)
      | PosInfinity \<Rightarrow> NegInfinity
      | NegInfinity \<Rightarrow> PosInfinity)"

definition parseInt :: "string \<Rightarrow> jsnum" where
  "parseInt s =
     (case js_whitespace False s of
        [] \<Rightarrow> NaN
      | c # cs \<Rightarrow>
          if c = CHR ''-'' then negate (unsigned_int cs)
          else if c = CHR ''+'' then unsigned_int cs
          else unsigned_int (c # cs))"

text \<open>
  \<^verbatim>\<open>req.query\<close>: each recognised parameter is absent or a string (the repeated and
  nested forms that the query parser can also produce are not modelled).
\<close>

record query =
  category :: "string option"
  startDate :: "string option"
  endDate :: "string option"
  participantsMin :: "string option"
  participantsMax :: "string option"
  search :: "string option"
  page :: "string option"
  limit :: "string option"

definition present :: "string option \<Rightarrow> bool" where
  "present v = (case v of None \<Rightarrow> False | Some s \<Rightarrow> s \<noteq> [])"

definition qval :: "string option \<Rightarrow> jsval" where
  "qval v = (case v of None \<Rightarrow> JUndefined | Some s \<Rightarrow> JStr s)"

definition str_of :: "string option \<Rightarrow> string" where
  "str_of v = (case v of None \<Rightarrow> [] | Some s \<Rightarrow> s)"

text \<open>\<^verbatim>\<open>s.split(",")\<close> and \<^verbatim>\<open>s.trim()\<close>.\<close>

definition split_comma :: "string \<Rightarrow> string list" where
  "split_comma s =
     foldr (\<lambda>c acc. if c = CHR '','' then [] # acc else (c # hd acc) # tl acc) s [[]]"

definition trim :: "string \<Rightarrow> string" where
  "trim s = rev (js_whitespace True (rev (js_whitespace False s)))"

text \<open>
  \<^verbatim>\<open>new RegExp(s, "i")\<close>. A pattern of ordinary characters and dots is a sequence of
  atoms, matched without regard to the case of ASCII letters; a dot stands for any character
  but a line feed, and takes all the bytes of the character it matches. Any other
  metacharacter hands the pattern to the engine.
\<close>

definition metachar :: "char \<Rightarrow> bool" where
  "metachar c =
     (c \<in> {CHR ''^'', CHR ''$'', CHR 0x5C, CHR ''.'', CHR ''*'', CHR ''+'', CHR ''?'',
           CHR ''('', CHR '')'', CHR ''['', CHR '']'', CHR ''{'', CHR ''}'', CHR ''|''})"

definition upper :: "char \<Rightarrow> char" where
  "upper c =
     (case map_of (zip ''abcdefghijklmnopqrstuvwxyz'' ''ABCDEFGHIJKLMNOPQRSTUVWXYZ'') c of
        None \<Rightarrow> c
      | Some u \<Rightarrow> u)"

datatype atom = Lit char | AnyChar

definition atom_of :: "char \<Rightarrow> atom" where
  "atom_of c = (if c = CHR ''.'' then AnyChar else Lit c)"

fun atom_match :: "atom \<Rightarrow> char \<Rightarrow> bool" where
  "atom_match (Lit c) x = (upper c = upper x)"
| "atom_match AnyChar x = (x \<noteq> CHR 0x0A)"

text \<open>What is left of the text after an atom has matched its first byte: a dot also takes
  the continuation bytes \<^verbatim>\<open>10xxxxxx\<close> that follow.\<close>

definition utf8_continuation :: "char \<Rightarrow> bool" where
  "utf8_continuation c = (digit7 c \<and> \<not> digit6 c)"

fun rest_after :: "atom \<Rightarrow> string \<Rightarrow> string" where
  "rest_after (Lit c) xs = xs"
| "rest_after AnyChar xs = dropWhile utf8_continuation xs"

function match_here :: "atom list \<Rightarrow> string \<Rightarrow> bool" where
  "match_here [] t = True"
| "match_here (a # as) [] = False"
| "match_here (a # as) (x # xs) = (atom_match a x \<and> match_here as (rest_after a xs))"
  by pat_completeness auto
termination
proof (relation "measure (\<lambda>(as, t). length t)")
  show "wf (measure (\<lambda>(as, t). length t))" by simp
next
  fix a :: atom and as :: "atom list" and x :: char and xs :: string
  have "length (rest_after a xs) \<le> length xs"
    by (cases a) (simp_all add: length_dropWhile_le)
  then show "((as, rest_after a xs), (a # as, x # xs)) \<in> measure (\<lambda>(as, t). length t)"
    by simp
qed

fun regex_search :: "atom list \<Rightarrow> string \<Rightarrow> bool" where
  "regex_search as [] = match_here as []"
| "regex_search as (x # xs) = (match_here as (x # xs) \<or> regex_search as xs)"

definition new_RegExp :: "runtime \<Rightarrow> string \<Rightarrow> exn + (string \<Rightarrow> bool)" where
  "new_RegExp rt s =
     (if list_all (\<lambda>c. \<not> metachar c \<or> c = CHR ''.'') s
      then Inr (regex_search (map atom_of s))
      else (case RegExp_engine rt s of None \<Rightarrow> Inl SyntaxError | Some t \<Rightarrow> Inr t))"

text \<open>The filter object that \<^verbatim>\<open>buildChallengeFilters\<close> returns; an absent key is
  \<open>None\<close>.\<close>

record 'a bounds =
  gte :: "'a option"
  lte :: "'a option"

record filters =
  isPublished_in :: "jsval list"
  category_in :: "string list option"
  startDate_bounds :: "int bounds option"
  participants_bounds :: "jsnum bounds option"
  or_regex :: "(string \<times> (string \<Rightarrow> bool)) list option"

text \<open>\<^verbatim>\<open>buildChallengeFilters\<close> (lines 105-136).\<close>

definition buildChallengeFilters :: "runtime \<Rightarrow> query \<Rightarrow> exn + filters" where
  "buildChallengeFilters rt q =
     (let f0 = \<lparr> isPublished_in = [JBool True, JNull], category_in = None,
                 startDate_bounds = None, participants_bounds = None, or_regex = None \<rparr>;
          f1 = (if present (category q)
                then (let cats = filter (\<lambda>s. s \<noteq> []) (map trim (split_comma (str_of (category q))))
                      in if cats \<noteq> [] then f0\<lparr> category_in := Some cats \<rparr> else f0)
                else f0);
          f2 = (if present (startDate q) \<or> present (endDate q)
                then (let from = parseDateSafe rt (qval (startDate q));
                          to = parseDateSafe rt (qval (endDate q))
                      in if from \<noteq> None \<or> to \<noteq> None
                         then f1\<lparr> startDate_bounds := Some \<lparr> gte = from, lte = to \<rparr> \<rparr>
                         else f1)
                else f1);
          f3 = (if present (participantsMin q) \<or> present (participantsMax q)
                then f2\<lparr> participants_bounds := Some
                       \<lparr> gte = (if present (participantsMin q)
                                then Some (parseInt (str_of (participantsMin q))) else None),
                         lte = (if present (participantsMax q)
                                then Some (parseInt (str_of (participantsMax q))) else None) \<rparr> \<rparr>
                else f2)
      in if present (search q)
         then (case new_RegExp rt (str_of (search q)) of
                 Inl err \<Rightarrow> Inl err
               | Inr re \<Rightarrow>
                   Inr (f3\<lparr> or_regex := Some [(''title'', re), (''description'', re), (''tags'', re)] \<rparr>))
         else Inr f3)"

text \<open>
  How the server evaluates the filter on a document. A condition on a field holds when the
  field's value, or an element of it when it is an array, satisfies it; \<^verbatim>\<open>null\<close> in
  \<^verbatim>\<open>$in\<close> also matches an absent field; a range bound matches values of its own type
  only, and a \<^verbatim>\<open>NaN\<close> bound only a \<^verbatim>\<open>NaN\<close> value, which no stored document has
  (\<open>at_least\<close> and \<open>at_most\<close> compare a bound with a stored, finite number).
\<close>

definition values_of :: "jsval \<Rightarrow> jsval list" where
  "values_of v = v # (case v of JArr xs \<Rightarrow> xs | _ \<Rightarrow> [])"

definition in_match :: "jsval list \<Rightarrow> jsval \<Rightarrow> bool" where
  "in_match vals v =
     list_ex (\<lambda>x. x \<in> set vals \<or> (x = JUndefined \<and> JNull \<in> set vals)) (values_of v)"

definition date_bounds_match :: "int bounds \<Rightarrow> jsval \<Rightarrow> bool" where
  "date_bounds_match b v =
     ((case gte b of None \<Rightarrow> True
       | Some lo \<Rightarrow> list_ex (\<lambda>x. case x of JDate t \<Rightarrow> lo \<le> t | _ \<Rightarrow> False) (values_of v)) \<and>
      (case lte b of None \<Rightarrow> True
       | Some hi \<Rightarrow> list_ex (\<lambda>x. case x of JDate t \<Rightarrow> t \<le> hi | _ \<Rightarrow> False) (values_of v)))"

fun at_least :: "jsnum \<Rightarrow> int \<Rightarrow> bool" where
  "at_least NaN n = False"
| "at_least (Num lo) n = (lo \<le> n)"
| "at_least PosInfinity n = False"
| "at_least NegInfinity n = True"

fun at_most :: "jsnum \<Rightarrow> int \<Rightarrow> bool" where
  "at_most NaN n = False"
| "at_most (Num hi) n = (n \<le> hi)"
| "at_most PosInfinity n = True"
| "at_most NegInfinity n = False"

definition num_bounds_match :: "jsnum bounds \<Rightarrow> jsval \<Rightarrow> bool" where
  "num_bounds_match b v =
     ((case gte b of None \<Rightarrow> True
       | Some lo \<Rightarrow>
           list_ex (\<lambda>x. case x of JNum n \<Rightarrow> at_least lo n | _ \<Rightarrow> False) (values_of v)) \<and>
      (case lte b of None \<Rightarrow> True
       | Some hi \<Rightarrow>
           list_ex (\<lambda>x. case x of JNum n \<Rightarrow> at_most hi n | _ \<Rightarrow> False) (values_of v)))"

definition regex_match :: "(string \<Rightarrow> bool) \<Rightarrow> jsval \<Rightarrow> bool" where
  "regex_match re v = list_ex (\<lambda>x. case x of JStr s \<Rightarrow> re s | _ \<Rightarrow> False) (values_of v)"

definition or_match :: "(string \<times> (string \<Rightarrow> bool)) list \<Rightarrow> doc \<Rightarrow> bool" where
  "or_match clauses d = list_ex (\<lambda>(k, re). regex_match re (fld d k)) clauses"

definition matches :: "filters \<Rightarrow> doc \<Rightarrow> bool" where
  "matches f d =
     (in_match (isPublished_in f) (fld d ''isPublished'') \<and>
      (case category_in f of None \<Rightarrow> True
       | Some cats \<Rightarrow> in_match (map JStr cats) (fld d ''category'')) \<and>
      (case startDate_bounds f of None \<Rightarrow> True
       | Some b \<Rightarrow> date_bounds_match b (fld d ''startDate'')) \<and>
      (case participants_bounds f of None \<Rightarrow> True
       | Some b \<Rightarrow> num_bounds_match b (fld d ''participants'')) \<and>
      (case or_regex f of None \<Rightarrow> True | Some clauses \<Rightarrow> or_match clauses d))"

text \<open>
  The search criterion of the filter built for a query, on a document: \<open>None\<close> when
  building the filter throws or the filter has no \<^verbatim>\<open>$or\<close> key.
\<close>

definition search_criterion :: "runtime \<Rightarrow> query \<Rightarrow> doc \<Rightarrow> bool option" where
  "search_criterion rt q d =
     (case buildChallengeFilters rt q of
        Inl err \<Rightarrow> None
      | Inr f \<Rightarrow> (case or_regex f of None \<Rightarrow> None | Some clauses \<Rightarrow> Some (or_match clauses d)))"

text \<open>
  The specification's words for the search: the string occurs in the text as a substring,
  the case of letters aside.
\<close>

definition occurs_ignoring_case :: "string \<Rightarrow> string \<Rightarrow> bool" where
  "occurs_ignoring_case s t = sublist (map upper s) (map upper t)"

text \<open>\<^verbatim>\<open>Math.max(1, x)\<close>, \<^verbatim>\<open>Math.min(100, x)\<close> and \<^verbatim>\<open>(page - 1) * limit\<close>.\<close>

definition Math_max :: "int \<Rightarrow> jsnum \<Rightarrow> jsnum" where
  "Math_max a x =
     (case x of
        NaN \<Rightarrow> NaN
      | Num n \<Rightarrow> Num (max a n)
      | PosInfinity \<Rightarrow> PosInfinity
      | NegInfinity \<Rightarrow> Num a)"

definition Math_min :: "int \<Rightarrow> jsnum \<Rightarrow> jsnum" where
  "Math_min a x =
     (case x of
        NaN \<Rightarrow> NaN
      | Num n \<Rightarrow> Num (min a n)
      | PosInfinity \<Rightarrow> Num a
      | NegInfinity \<Rightarrow> NegInfinity)"

definition js_minus_one :: "jsnum \<Rightarrow> jsnum" where
  "js_minus_one x = (case x of Num a \<Rightarrow> js_number (a - 1) | _ \<Rightarrow> x)"

fun js_sign :: "jsnum \<Rightarrow> int" where
  "js_sign NaN = 0"
| "js_sign (Num a) = sgn a"
| "js_sign PosInfinity = 1"
| "js_sign NegInfinity = - 1"

definition js_times :: "jsnum \<Rightarrow> jsnum \<Rightarrow> jsnum" where
  "js_times x y =
     (case (x, y) of
        (NaN, _) \<Rightarrow> NaN
      | (_, NaN) \<Rightarrow> NaN
      | (Num a, Num b) \<Rightarrow> js_number (a * b)
      | _ \<Rightarrow> (if js_sign x * js_sign y = 0 then NaN
              else if 0 < js_sign x * js_sign y then PosInfinity else NegInfinity))"

definition skip_of :: "jsnum \<Rightarrow> jsnum \<Rightarrow> jsnum" where
  "skip_of p l = js_times (js_minus_one p) l"

text \<open>Lines 146 and 147: \<^verbatim>\<open>page\<close> and \<^verbatim>\<open>limit\<close>.\<close>

definition effective_page :: "query \<Rightarrow> jsnum" where
  "effective_page q = Math_max 1 (parseInt (if present (page q) then str_of (page q) else ''1''))"

definition effective_limit :: "query \<Rightarrow> jsnum" where
  "effective_limit q = Math_min 100 (parseInt (if present (limit q) then str_of (limit q) else ''10''))"

text \<open>
  \<^verbatim>\<open>.sort({ startDate: 1 })\<close>: ascending in the server's comparison order, in which two
  dates compare by time and an absent field is \<^verbatim>\<open>null\<close>. The sort is an insertion sort
  that keeps documents with equal keys in collection order.
\<close>

fun bson_le :: "runtime \<Rightarrow> jsval \<Rightarrow> jsval \<Rightarrow> bool" where
  "bson_le rt (JDate a) (JDate b) = (a \<le> b)"
| "bson_le rt a b = bson_compare rt a b"

definition sort_value :: "doc \<Rightarrow> jsval" where
  "sort_value d = (case d ''startDate'' of None \<Rightarrow> JNull | Some v \<Rightarrow> v)"

definition startDate_le :: "runtime \<Rightarrow> doc \<Rightarrow> doc \<Rightarrow> bool" where
  "startDate_le rt a b = bson_le rt (sort_value a) (sort_value b)"

fun insert_sorted :: "('a \<Rightarrow> 'a \<Rightarrow> bool) \<Rightarrow> 'a \<Rightarrow> 'a list \<Rightarrow> 'a list" where
  "insert_sorted le x [] = [x]"
| "insert_sorted le x (y # ys) = (if le x y then x # y # ys else y # insert_sorted le x ys)"

definition sort_by :: "('a \<Rightarrow> 'a \<Rightarrow> bool) \<Rightarrow> 'a list \<Rightarrow> 'a list" where
  "sort_by le xs = foldr (insert_sorted le) xs []"

definition total_preorder :: "('a \<Rightarrow> 'a \<Rightarrow> bool) \<Rightarrow> bool" where
  "total_preorder le = ((\<forall>a b. le a b \<or> le b a) \<and> (\<forall>a b c. le a b \<longrightarrow> le b c \<longrightarrow> le a c))"

text \<open>
  \<^verbatim>\<open>.skip(skip).limit(limit)\<close>: the server rejects a skip or limit that is not an integer
  of 64 bits and a negative skip; the driver sends a negative limit as its absolute value,
  and a limit of 0 is no limit.
\<close>

definition cursor_window :: "jsnum \<Rightarrow> jsnum \<Rightarrow> 'a list \<Rightarrow> exn + 'a list" where
  "cursor_window sk lim xs =
     (case (sk, lim) of
        (Num s, Num l) \<Rightarrow>
          if s < 0 \<or> 2 ^ 63 \<le> s \<or> 2 ^ 63 \<le> \<bar>l\<bar> then Inl (MongoServerError 2 ''BadValue'')
          else Inr (if l = 0 then drop (nat s) xs else take (nat \<bar>l\<bar>) (drop (nat s) xs))
      | _ \<Rightarrow> Inl (MongoServerError 2 ''BadValue''))"

record listing =
  res_page :: jsnum
  res_limit :: jsnum
  total :: nat
  items :: "doc list"

text \<open>\<^verbatim>\<open>GET /challenges\<close> (lines 144-167). \<open>fault\<close> fails the store calls.\<close>

definition list_challenges :: "runtime \<Rightarrow> bool \<Rightarrow> query \<Rightarrow> store \<Rightarrow> listing response" where
  "list_challenges rt fault q st =
     (let page = effective_page q;
          limit = effective_limit q;
          skip = skip_of page limit
      in case buildChallengeFilters rt q of
           Inl err \<Rightarrow> Fail 500 ''Server error''
         | Inr f \<Rightarrow>
             if fault then Fail 500 ''Server error''
             else (case cursor_window skip limit
                          (sort_by (startDate_le rt) (filter (matches f) (challenges st))) of
                     Inl err \<Rightarrow> Fail 500 ''Server error''
                   | Inr found \<Rightarrow>
                       Success 200 \<lparr> res_page = page, res_limit = limit,
                                     total = length (filter (matches f) (challenges st)),
                                     items = found \<rparr>))"

text \<open>
  The three operations that write challenges and memberships, each with what its route
  takes, and a sequence of them run from a store, each on the store the one before left.
\<close>

datatype operation =
    Create int string "nat option" "authUser option" doc
  | Update int "nat option" "authUser option" string doc
  | Join int string "nat option" "authUser option" string

fun apply_operation :: "runtime \<Rightarrow> store \<Rightarrow> operation \<Rightarrow> store" where
  "apply_operation rt st (Create now new_id fault req_user body) =
     snd (create_challenge rt now new_id fault req_user body st)"
| "apply_operation rt st (Update now fault req_user id' body) =
     snd (update_challenge rt now fault req_user id' body st)"
| "apply_operation rt st (Join now new_id fault req_user challengeId) =
     snd (join_challenge rt now new_id fault req_user challengeId st)"

definition run :: "runtime \<Rightarrow> operation list \<Rightarrow> store \<Rightarrow> store" where
  "run rt ops st = foldl (apply_operation rt) st ops"

text \<open>
  An operation that leaves the counting of challenge \<open>c\<close> to the join route: a create
  of \<open>c\<close> whose body gives no number, or 0, for \<^verbatim>\<open>participants\<close>; an update of
  \<open>c\<close> whose body names neither \<^verbatim>\<open>participants\<close> nor \<^verbatim>\<open>maxParticipants\<close>; any join,
  and any operation on another challenge.
\<close>

fun counter_safe :: "runtime \<Rightarrow> string \<Rightarrow> operation \<Rightarrow> bool" where
  "counter_safe rt c (Create now new_id fault req_user body) =
     (new_id = c \<longrightarrow> (case fld body ''participants'' of JNum n \<Rightarrow> n = 0 | _ \<Rightarrow> True))"
| "counter_safe rt c (Update now fault req_user id' body) =
     (ObjectId_hex rt id' = c \<longrightarrow> body ''participants'' = None \<and> body ''maxParticipants'' = None)"
| "counter_safe rt c (Join now new_id fault req_user challengeId) = True"

text \<open>The membership rows of a pair, and the rows of a challenge.\<close>

definition memberships :: "store \<Rightarrow> string \<Rightarrow> string \<Rightarrow> userChallenge list" where
  "memberships st u c = filter (\<lambda>x. user x = u \<and> challenge x = c) (userChallenges st)"

definition rows_of :: "store \<Rightarrow> string \<Rightarrow> userChallenge list" where
  "rows_of st c = filter (\<lambda>x. challenge x = c) (userChallenges st)"

text \<open>
  Challenge \<open>c\<close> is counted in a store: while it is not stored it has no membership row,
  and when its capacity is a positive integer \<open>N\<close>, and \<open>N\<close> or the number of its
  membership rows is at most \<open>2 ^ 53\<close>, its counter is the number of its membership
  rows, which does not exceed \<open>N\<close>.
\<close>

definition counted :: "store \<Rightarrow> string \<Rightarrow> bool" where
  "counted st c =
     (case findOne (challenges st) c of
        None \<Rightarrow> rows_of st c = []
      | Some ch \<Rightarrow>
          (case fld ch ''maxParticipants'' of
             JNum N \<Rightarrow>
               0 < N \<and> (N \<le> 2 ^ 53 \<or> int (length (rows_of st c)) \<le> 2 ^ 53) \<longrightarrow>
                 fld ch ''participants'' = JNum (int (length (rows_of st c))) \<and>
                 int (length (rows_of st c)) \<le> N
           | _ \<Rightarrow> True))"

section \<open>A sample runtime and sample data\<close>

text \<open>
  A concrete runtime on which the theorems below are exercised: 24 hexadecimal digits make
  an ObjectId, a number is the time value of the date built from it, and nothing else is
  decided in favour of the caller.
\<close>

definition hex_digit :: "char \<Rightarrow> bool" where
  "hex_digit c = (c \<in> set ''0123456789abcdefABCDEF'')"

definition sample_rank :: "jsval \<Rightarrow> int \<times> int" where
  "sample_rank v =
     (case v of
        JUndefined \<Rightarrow> (1, 0) | JNull \<Rightarrow> (1, 0)
      | JNum n \<Rightarrow> (2, n) | JStr s \<Rightarrow> (3, int (length s))
      | JObj kvs \<Rightarrow> (4, 0) | JArr xs \<Rightarrow> (5, 0) | JOid h \<Rightarrow> (6, 0)
      | JBool b \<Rightarrow> (7, if b then 1 else 0) | JDate t \<Rightarrow> (8, t))"

definition rank_le :: "int \<times> int \<Rightarrow> int \<times> int \<Rightarrow> bool" where
  "rank_le a b = (fst a < fst b \<or> (fst a = fst b \<and> snd a \<le> snd b))"

definition rt0 :: runtime where
  "rt0 = \<lparr> ObjectId_isValid = (\<lambda>s. length s = 24 \<and> list_all hex_digit s),
           ObjectId_hex = (\<lambda>s. s),
           Date_time = (\<lambda>v. case v of JNum n \<Rightarrow> Some n | _ \<Rightarrow> None),
           RegExp_engine = (\<lambda>s. None),
           relational_ge = (\<lambda>a b. False),
           toString = (\<lambda>v. case v of JStr s \<Rightarrow> s | JOid h \<Rightarrow> h | _ \<Rightarrow> ''[object Object]''),
           bson_compare = (\<lambda>a b. rank_le (sample_rank a) (sample_rank b)) \<rparr>"

definition alice :: authUser where
  "alice = \<lparr> uid = ''mock-user:aaaaaaaaaaaaaaaaaaaaaaaa'', isAdmin = False,
             user_id = Some ''aaaaaaaaaaaaaaaaaaaaaaaa'' \<rparr>"

definition challenge_c :: "int \<Rightarrow> jsval \<Rightarrow> doc" where
  "challenge_c p mx =
     [''_id'' \<mapsto> JOid ''cccccccccccccccccccccccc'', ''title'' \<mapsto> JStr ''Plant a tree'',
      ''slug'' \<mapsto> JStr ''plant-a-tree'', ''participants'' \<mapsto> JNum p, ''maxParticipants'' \<mapsto> mx]"

definition alice_in_c :: userChallenge where
  "alice_in_c = \<lparr> uc_id = ''111111111111111111111111'', user = ''aaaaaaaaaaaaaaaaaaaaaaaa'',
                  challenge = ''cccccccccccccccccccccccc'', joinedAt = 5, progress = 0,
                  status = ''joined'', meta = JNull, createdAt = 5, updatedAt = 5 \<rparr>"

definition admin :: authUser where
  "admin = \<lparr> uid = ''mock-admin'', isAdmin = True, user_id = Some ''000000000000000000000001'' \<rparr>"

definition bob :: authUser where
  "bob = \<lparr> uid = ''mock-user:bbbbbbbbbbbbbbbbbbbbbbbb'', isAdmin = False,
           user_id = Some ''bbbbbbbbbbbbbbbbbbbbbbbb'' \<rparr>"

definition bob_in_c :: userChallenge where
  "bob_in_c = \<lparr> uc_id = ''222222222222222222222222'', user = ''bbbbbbbbbbbbbbbbbbbbbbbb'',
                challenge = ''cccccccccccccccccccccccc'', joinedAt = 1000, progress = 0,
                status = ''joined'', meta = JNull, createdAt = 1000, updatedAt = 1000 \<rparr>"

text \<open>Challenge c with Alice as its one member: full at capacity 1, open at capacity 5.\<close>

definition full_store :: store where
  "full_store = \<lparr> challenges = [challenge_c 1 (JNum 1)], userChallenges = [alice_in_c] \<rparr>"

definition open_store :: store where
  "open_store = \<lparr> challenges = [challenge_c 1 (JNum 5)], userChallenges = [alice_in_c] \<rparr>"


definition zero_cap_store :: store where
  "zero_cap_store = \<lparr> challenges = [challenge_c 3 (JNum 0)], userChallenges = [] \<rparr>"


text \<open>A create request and the document it stores, with the counter and the capacity the
  caller chose; a join request.\<close>

definition sample_body :: "jsval \<Rightarrow> jsval \<Rightarrow> doc" where
  "sample_body p mx =
     [''title'' \<mapsto> JStr ''Plant a tree'', ''slug'' \<mapsto> JStr ''plant-a-tree'',
      ''description'' \<mapsto> JStr ''One tree each'', ''startDate'' \<mapsto> JNum 1700000000000,
      ''endDate'' \<mapsto> JNum 1800000000000, ''participants'' \<mapsto> p, ''maxParticipants'' \<mapsto> mx]"

definition sample_created :: "jsval \<Rightarrow> jsval \<Rightarrow> doc" where
  "sample_created p mx =
     (challenge_doc (JOid ''aaaaaaaaaaaaaaaaaaaaaaaa'') 1700000000000 1800000000000 10
        (sample_body p mx))(''_id'' \<mapsto> JOid ''cccccccccccccccccccccccc'')"

definition empty_store :: store where
  "empty_store = \<lparr> challenges = [], userChallenges = [] \<rparr>"


text \<open>Two update bodies: one overwriting owner, slug, counter and capacity, one with an
  unparseable start date.\<close>

definition takeover :: doc where
  "takeover = [''owner'' \<mapsto> JStr ''mallory'', ''slug'' \<mapsto> JStr ''taken'',
               ''participants'' \<mapsto> JNum 99, ''maxParticipants'' \<mapsto> JNum 1]"

definition typo :: doc where
  "typo = [''startDate'' \<mapsto> JStr ''soon'']"

text \<open>
  A run: challenge c is created with capacity 5 and a counter that is no number, Bob joins
  it twice, and its start date is updated. Three more: one whose create gives the counter 5
  and the capacity 3, one whose update overwrites counter and capacity, one whose create
  gives the capacity -1.
\<close>

definition sample_run :: "operation list" where
  "sample_run =
     [Create 10 ''cccccccccccccccccccccccc'' None (Some alice) (sample_body (JStr ''many'') (JNum 5)),
      Join 1000 ''222222222222222222222222'' None (Some bob) ''cccccccccccccccccccccccc'',
      Join 1001 ''333333333333333333333333'' None (Some bob) ''cccccccccccccccccccccccc'',
      Update 2000 None (Some admin) ''cccccccccccccccccccccccc'' typo]"

definition overcounted_run :: "operation list" where
  "overcounted_run =
     [Create 10 ''cccccccccccccccccccccccc'' None (Some alice) (sample_body (JNum 5) (JNum 3))]"

definition overwriting_run :: "operation list" where
  "overwriting_run =
     [Create 10 ''cccccccccccccccccccccccc'' None (Some alice) (sample_body (JNum 0) (JNum 5)),
      Join 1000 ''222222222222222222222222'' None (Some bob) ''cccccccccccccccccccccccc'',
      Update 2000 None (Some admin) ''cccccccccccccccccccccccc'' takeover]"

definition negative_run :: "operation list" where
  "negative_run =
     [Create 10 ''cccccccccccccccccccccccc'' None (Some alice) (sample_body (JNum 0) (JNum (- 1)))]"

text \<open>
  Challenge c with \<open>n\<close> members, each a user of their own (the ObjectId of the number of
  the member, 24 hexadecimal digits), the counter at \<open>n\<close> and the capacity at
  \<open>n + 2\<close>.
\<close>

definition hex24 :: "nat \<Rightarrow> string" where
  "hex24 i = map (\<lambda>k. ''0123456789abcdef'' ! (i div 16 ^ (23 - k) mod 16)) [0 ..< 24]"

definition member :: "nat \<Rightarrow> userChallenge" where
  "member i = \<lparr> uc_id = hex24 i, user = hex24 i,
                challenge = ''cccccccccccccccccccccccc'', joinedAt = 5, progress = 0,
                status = ''joined'', meta = JNull, createdAt = 5, updatedAt = 5 \<rparr>"

definition crowd :: "nat \<Rightarrow> store" where
  "crowd n = \<lparr> challenges = [challenge_c (int n) (JNum (int n + 2))],
               userChallenges = map member [0 ..< n] \<rparr>"

text \<open>A store of \<open>n\<close> challenges, published by default, in the order of their start
  dates.\<close>

definition challenge_no :: "nat \<Rightarrow> doc" where
  "challenge_no i = [''_id'' \<mapsto> JOid (hex24 i), ''title'' \<mapsto> JStr ''Plant a tree'',
                     ''startDate'' \<mapsto> JDate (int i)]"

definition long_store :: "nat \<Rightarrow> store" where
  "long_store n = \<lparr> challenges = map challenge_no [0 ..< n], userChallenges = [] \<rparr>"

text \<open>A published challenge and some queries.\<close>

definition tree_doc :: doc where
  "tree_doc = [''_id'' \<mapsto> JOid ''dddddddddddddddddddddddd'',
               ''title'' \<mapsto> JStr ''Plant a tree'', ''description'' \<mapsto> JStr ''One each'',
               ''tags'' \<mapsto> JArr (map JStr [''green'', ''Trees'']),
               ''startDate'' \<mapsto> JDate 300, ''participants'' \<mapsto> JNum 5]"

definition no_query :: query where
  "no_query = \<lparr> category = None, startDate = None, endDate = None, participantsMin = None,
                participantsMax = None, search = None, page = None, limit = None \<rparr>"

definition abc_query :: query where
  "abc_query = no_query\<lparr> participantsMin := Some ''abc'' \<rparr>"

definition zero_limit :: query where
  "zero_limit = no_query\<lparr> limit := Some ''0'' \<rparr>"



section \<open>Double arithmetic\<close>

lemma double_ulp_small: "m < 9007199254740992 \<Longrightarrow> double_ulp m = 1"
  by (simp add: double_ulp.simps)

lemma double_ulp_2_53: "double_ulp 9007199254740992 = 2"
  by (simp add: double_ulp.simps)

lemma round_double_exact:
  assumes "\<bar>x\<bar> \<le> 9007199254740992"
  shows "round_double x = x"
proof (cases "\<bar>x\<bar> = 9007199254740992")
  case True
  then have m: "nat \<bar>x\<bar> = 9007199254740992" by simp
  have "round_double x = sgn x * 9007199254740992"
    unfolding round_double_def Let_def m double_ulp_2_53 by simp
  with True show ?thesis by (simp add: abs_if sgn_if split: if_splits)
next
  case False
  with assms have "nat \<bar>x\<bar> < 9007199254740992" by simp
  then have "double_ulp (nat \<bar>x\<bar>) = 1" by (rule double_ulp_small)
  then have "round_double x = sgn x * int (nat \<bar>x\<bar>)"
    unfolding round_double_def Let_def by simp
  then show ?thesis by (simp add: abs_if sgn_if)
qed

lemma round_double_2_53_1: "round_double 9007199254740993 = 9007199254740992"
proof -
  have m: "nat \<bar>9007199254740993 :: int\<bar> = 9007199254740993" by simp
  have u: "double_ulp 9007199254740993 = 2" by (simp add: double_ulp.simps)
  show ?thesis unfolding round_double_def Let_def m u by simp
qed

lemma js_number_exact: "\<bar>x\<bar> \<le> 9007199254740992 \<Longrightarrow> js_number x = Num x"
proof -
  assume a: "\<bar>x\<bar> \<le> 9007199254740992"
  have "(9007199254740992 :: int) < 2 ^ 1024" by simp
  with a have "\<not> 2 ^ 1024 \<le> \<bar>x\<bar>" by linarith
  with a show ?thesis by (simp add: js_number_def round_double_exact)
qed


section \<open>Properties of the join route\<close>

text \<open>
  The transaction of the join route as one step on the store. Every call of the callback
  is in the session, so nothing reaches the committed store before the commit: whatever
  is thrown, and wherever, the store that is left is the one the transaction was opened on.
\<close>

lemma join_transaction_committed:
  "join_transaction rt now new_id fault userId challengeId t = (r, t') \<Longrightarrow>
   committed t' = committed t"
  by (auto simp: join_transaction_def tx_findOne_def tx_insertOne_uc_def tx_updateOne_def
        session_view_def session_write_def Let_def
        split: option.splits if_splits sum.splits)

lemma withTransaction_join_aborted:
  "withTransaction commit_fails (join_transaction rt now new_id fault userId challengeId) st
     = (Inl err, st') \<Longrightarrow> st' = st"
proof -
  assume a: "withTransaction commit_fails (join_transaction rt now new_id fault userId challengeId) st
     = (Inl err, st')"
  obtain r t' where j: "join_transaction rt now new_id fault userId challengeId
      \<lparr> committed = st, working = st \<rparr> = (r, t')"
    by (cases "join_transaction rt now new_id fault userId challengeId
      \<lparr> committed = st, working = st \<rparr>")
  from join_transaction_committed[OF j] have c: "committed t' = st" by simp
  from a j c show "st' = st"
    by (cases r) (auto simp: withTransaction_def split: if_splits)
qed

lemma withTransaction_join_committed:
  assumes "withTransaction commit_fails (join_transaction rt now new_id fault userId challengeId) st
     = (Inr row, st')"
  shows "\<exists>ch rows chs.
           findOne (challenges st) (ObjectId_hex rt challengeId) = Some ch \<and>
           \<not> (truthy (fld ch ''maxParticipants'') \<and>
              js_ge rt (fld ch ''participants'') (fld ch ''maxParticipants'')) \<and>
           row = \<lparr> uc_id = new_id, user = ObjectId_hex rt userId,
                   challenge = ObjectId_hex rt challengeId,
                   joinedAt = now, progress = 0, status = ''joined'', meta = JNull,
                   createdAt = now, updatedAt = now \<rparr> \<and>
           insertOne_uc row (userChallenges st) = Inr rows \<and>
           updateOne (inc_participants now) (ObjectId_hex rt challengeId) (challenges st) = Inr chs \<and>
           st' = \<lparr> challenges = chs, userChallenges = rows \<rparr>"
  using assms
  by (cases st)
     (auto simp: withTransaction_def join_transaction_def tx_findOne_def tx_insertOne_uc_def
        tx_updateOne_def session_view_def session_write_def Let_def
        split: option.splits if_splits sum.splits prod.splits)

lemma join_challenge_failure_unchanged:
  "join_challenge rt now new_id fault req_user challengeId st = (Fail c m, st') \<Longrightarrow> st' = st"
  by (auto simp: join_challenge_def
        split: option.splits if_splits sum.splits prod.splits
        dest: withTransaction_join_aborted)

lemma inc_participants_id: "inc_participants now d = Inr d' \<Longrightarrow> d' ''_id'' = d ''_id''"
  by (auto simp: inc_participants_def split: option.splits jsval.splits)

lemma updateOne_findOne_same:
  "updateOne (inc_participants now) oid chs = Inr chs' \<Longrightarrow> findOne chs oid = Some ch \<Longrightarrow>
   \<exists>ch'. inc_participants now ch = Inr ch' \<and> findOne chs' oid = Some ch'"
proof (induction chs arbitrary: chs')
  case Nil
  then show ?case by (simp add: findOne_def)
next
  case (Cons d ds)
  show ?case
  proof (cases "d ''_id'' = Some (JOid oid)")
    case True
    from Cons.prems(2) True have chd: "ch = d" by (simp add: findOne_def)
    from Cons.prems(1) True obtain d' where d': "inc_participants now d = Inr d'" "chs' = d' # ds"
      by (cases "inc_participants now d") simp_all
    from inc_participants_id[OF d'(1)] True have "d' ''_id'' = Some (JOid oid)" by simp
    with d' chd show ?thesis by (simp add: findOne_def)
  next
    case False
    from Cons.prems(1) False obtain ds' where ds': "updateOne (inc_participants now) oid ds = Inr ds'" "chs' = d # ds'"
      by (cases "updateOne (inc_participants now) oid ds") simp_all
    from False Cons.prems(2) have "findOne ds oid = Some ch" by (simp add: findOne_def)
    from Cons.IH[OF ds'(1) this] obtain ch' where "inc_participants now ch = Inr ch'" "findOne ds' oid = Some ch'"
      by blast
    with False ds' show ?thesis by (simp add: findOne_def)
  qed
qed

lemma updateOne_findOne_other:
  "updateOne (inc_participants now) oid chs = Inr chs' \<Longrightarrow> oid \<noteq> c \<Longrightarrow>
   findOne chs' c = findOne chs c"
proof (induction chs arbitrary: chs')
  case Nil
  then show ?case by simp
next
  case (Cons d ds)
  show ?case
  proof (cases "d ''_id'' = Some (JOid oid)")
    case True
    from Cons.prems(1) True obtain d' where d': "inc_participants now d = Inr d'" "chs' = d' # ds"
      by (cases "inc_participants now d") simp_all
    from inc_participants_id[OF d'(1)] True have "d' ''_id'' = Some (JOid oid)" by simp
    with d' True Cons.prems(2) show ?thesis by (simp add: findOne_def)
  next
    case False
    from Cons.prems(1) False obtain ds' where ds': "updateOne (inc_participants now) oid ds = Inr ds'" "chs' = d # ds'"
      by (cases "updateOne (inc_participants now) oid ds") simp_all
    from Cons.IH[OF ds'(1) Cons.prems(2)] have "findOne ds' c = findOne ds c" .
    with ds' show ?thesis by (simp add: findOne_def)
  qed
qed

lemma updateOne_inc_error:
  "updateOne (inc_participants now) oid chs = Inl e \<Longrightarrow> err_code e = Some 14"
proof (induction chs)
  case Nil
  then show ?case by simp
next
  case (Cons d ds)
  then show ?case
    by (auto simp: inc_participants_def split: if_splits sum.splits option.splits jsval.splits)
qed

lemma join_challenge_success:
  assumes "join_challenge rt now new_id fault req_user challengeId st = (Success code row, st')"
  obtains u userId ch ch' where
    "req_user = Some u" and "user_id u = Some userId"
    and "row = \<lparr> uc_id = new_id, user = ObjectId_hex rt userId,
                 challenge = ObjectId_hex rt challengeId,
                 joinedAt = now, progress = 0, status = ''joined'', meta = JNull,
                 createdAt = now, updatedAt = now \<rparr>"
    and "findOne (challenges st) (ObjectId_hex rt challengeId) = Some ch"
    and "\<not> (truthy (fld ch ''maxParticipants'') \<and>
            js_ge rt (fld ch ''participants'') (fld ch ''maxParticipants''))"
    and "inc_participants now ch = Inr ch'"
    and "findOne (challenges st') (ObjectId_hex rt challengeId) = Some ch'"
    and "updateOne (inc_participants now) (ObjectId_hex rt challengeId) (challenges st)
           = Inr (challenges st')"
    and "userChallenges st' = userChallenges st @ [row]"
    and "\<not> list_ex (\<lambda>x. uc_id x = new_id \<or> (user x = ObjectId_hex rt userId \<and>
            challenge x = ObjectId_hex rt challengeId)) (userChallenges st)"
proof -
  from assms obtain u userId where u: "req_user = Some u" "user_id u = Some userId"
    and tx: "withTransaction (fault = Some 3)
               (join_transaction rt now new_id fault userId challengeId) st = (Inr row, st')"
    by (auto simp: join_challenge_def join_catch_def
          split: option.splits if_splits sum.splits prod.splits)
  let ?c = "ObjectId_hex rt challengeId"
  let ?r = "\<lparr> uc_id = new_id, user = ObjectId_hex rt userId, challenge = ?c,
                joinedAt = now, progress = 0, status = ''joined'', meta = JNull,
                createdAt = now, updatedAt = now \<rparr>"
  from withTransaction_join_committed[OF tx]
  obtain ch rows chs where ch: "findOne (challenges st) ?c = Some ch"
    and nf: "\<not> (truthy (fld ch ''maxParticipants'') \<and>
            js_ge rt (fld ch ''participants'') (fld ch ''maxParticipants''))"
    and row: "row = ?r"
    and ins: "insertOne_uc row (userChallenges st) = Inr rows"
    and upd: "updateOne (inc_participants now) ?c (challenges st) = Inr chs"
    and st': "st' = \<lparr> challenges = chs, userChallenges = rows \<rparr>"
    by blast
  from ins have rows: "rows = userChallenges st @ [?r]"
    and fresh: "\<not> list_ex (\<lambda>x. uc_id x = new_id \<or> (user x = ObjectId_hex rt userId \<and> challenge x = ?c)) (userChallenges st)"
    by (auto simp: insertOne_uc_def row split: if_splits)
  from updateOne_findOne_same[OF upd ch]
  obtain ch' where ch': "inc_participants now ch = Inr ch'" "findOne chs ?c = Some ch'"
    by blast
  show thesis
    by (rule that[OF u row ch nf ch'(1)]) (simp_all add: st' ch' upd rows row fresh)
qed





lemma join_challenge_fails_when_member:
  assumes "req_user = Some u" and "user_id u = Some userId"
    and "memberships st (ObjectId_hex rt userId) (ObjectId_hex rt challengeId) \<noteq> []"
  shows "\<exists>code msg. join_challenge rt now new_id fault req_user challengeId st = (Fail code msg, st)"
proof -
  obtain resp st' where J: "join_challenge rt now new_id fault req_user challengeId st = (resp, st')"
    by (cases "join_challenge rt now new_id fault req_user challengeId st")
  show ?thesis
  proof (cases resp)
    case (Fail code msg)
    with J join_challenge_failure_unchanged[of rt now new_id fault req_user challengeId st code msg st']
    show ?thesis by simp
  next
    case (Success code row)
    from J[unfolded Success] obtain u' userId' where
      u': "req_user = Some u'" "user_id u' = Some userId'"
      and fresh: "\<not> list_ex (\<lambda>x. uc_id x = new_id \<or> (user x = ObjectId_hex rt userId' \<and>
            challenge x = ObjectId_hex rt challengeId)) (userChallenges st)"
      by (rule join_challenge_success)
    from u' assms(1,2) have "userId' = userId" by simp
    with fresh assms(3) have False
      by (auto simp: memberships_def list_ex_iff filter_empty_conv)
    then show ?thesis ..
  qed
qed

lemma join_challenge_duplicate:
  assumes "req_user = Some u" and "user_id u = Some userId"
    and "userId \<noteq> []" and "ObjectId_isValid rt userId" and "ObjectId_isValid rt challengeId"
    and "fault \<noteq> Some 0" and "fault \<noteq> Some 1"
    and "findOne (challenges st) (ObjectId_hex rt challengeId) = Some ch"
    and "\<not> (truthy (fld ch ''maxParticipants'') \<and>
            js_ge rt (fld ch ''participants'') (fld ch ''maxParticipants''))"
    and "memberships st (ObjectId_hex rt userId) (ObjectId_hex rt challengeId) \<noteq> []"
  shows "join_challenge rt now new_id fault req_user challengeId st
           = (Fail 409 ''User already joined this challenge'', st)"
proof -
  from assms(10) have ex: "list_ex (\<lambda>x. uc_id x = new_id \<or>
      (user x = ObjectId_hex rt userId \<and> challenge x = ObjectId_hex rt challengeId)) (userChallenges st)"
    by (auto simp: memberships_def list_ex_iff filter_empty_conv)
  have "join_transaction rt now new_id fault userId challengeId \<lparr> committed = st, working = st \<rparr>
          = (Inl (MongoServerError 11000 ''E11000 duplicate key error''),
             \<lparr> committed = st, working = st \<rparr>)"
    using assms(6-9) ex
    by (simp add: join_transaction_def tx_findOne_def tx_insertOne_uc_def session_view_def
          insertOne_uc_def Let_def)
  then have "withTransaction (fault = Some 3)
               (join_transaction rt now new_id fault userId challengeId) st
             = (Inl (MongoServerError 11000 ''E11000 duplicate key error''), st)"
    by (simp add: withTransaction_def)
  with assms(1-5) show ?thesis
    by (simp add: join_challenge_def join_catch_def)
qed

text \<open>
  C3 (as amended). When a membership row of the pair exists, a join by that user for that
  challenge fails and the store, the counter included, is as before. The capacity check
  comes before the insertion: the failure is 409 "User already joined this challenge" when
  the challenge is found and passes the capacity check (and the store answers up to the
  insertion); at a full challenge it is 400 "Challenge is full".
\<close>

theorem C3_duplicate_join:
  assumes "req_user = Some u" and "user_id u = Some userId"
    and "memberships st (ObjectId_hex rt userId) (ObjectId_hex rt challengeId) \<noteq> []"
  shows "(\<exists>code msg. join_challenge rt now new_id fault req_user challengeId st = (Fail code msg, st))
       \<and> (userId \<noteq> [] \<and> ObjectId_isValid rt userId \<and> ObjectId_isValid rt challengeId \<and>
          fault \<noteq> Some 0 \<and> fault \<noteq> Some 1 \<and>
          (\<exists>ch. findOne (challenges st) (ObjectId_hex rt challengeId) = Some ch \<and>
                \<not> (truthy (fld ch ''maxParticipants'') \<and>
                   js_ge rt (fld ch ''participants'') (fld ch ''maxParticipants'')))
          \<longrightarrow> join_challenge rt now new_id fault req_user challengeId st
                = (Fail 409 ''User already joined this challenge'', st))"
  using join_challenge_fails_when_member[OF assms]
    join_challenge_duplicate[OF assms(1,2) _ _ _ _ _ _ _ assms(3)]
  by blast

theorem C3_duplicate_join_witness:
  "join_challenge rt0 1000 ''222222222222222222222222'' None (Some alice)
        ''cccccccccccccccccccccccc'' open_store
     = (Fail 409 ''User already joined this challenge'', open_store)"
  using C3_duplicate_join [of "Some alice" alice "''aaaaaaaaaaaaaaaaaaaaaaaa''" open_store rt0
      "''cccccccccccccccccccccccc''" 1000 "''222222222222222222222222''" None]
  by (simp add: alice_def rt0_def hex_digit_def open_store_def findOne_def challenge_c_def fld_def
        memberships_def alice_in_c_def)

text \<open>
  C3 as stated fails: Alice is a member of challenge c, which is full at capacity 1; her
  second join is answered 400 "Challenge is full", not 409.
\<close>

theorem C3_counterexample:
  "memberships full_store ''aaaaaaaaaaaaaaaaaaaaaaaa'' ''cccccccccccccccccccccccc'' = [alice_in_c]
   \<and> join_challenge rt0 1000 ''222222222222222222222222'' None (Some alice)
        ''cccccccccccccccccccccccc'' full_store = (Fail 400 ''Challenge is full'', full_store)
   \<and> Fail 400 ''Challenge is full'' \<noteq> (Fail 409 ''User already joined this challenge'' :: userChallenge response)"
  by (simp add: memberships_def full_store_def alice_in_c_def join_challenge_def alice_def rt0_def
        hex_digit_def withTransaction_def join_transaction_def tx_findOne_def session_view_def
        findOne_def challenge_c_def fld_def join_catch_def)

text \<open>
  C4 (as amended). A join that reaches the transaction and finds the challenge with a
  non-zero numeric \<^verbatim>\<open>maxParticipants\<close> and a numeric \<^verbatim>\<open>participants\<close> at or above it is
  answered 400 "Challenge is full", and the store is the one before the call: no membership
  row is inserted and the counter is unchanged.
\<close>

theorem C4_capacity_exceeded:
  assumes "req_user = Some u" and "user_id u = Some userId" and "userId \<noteq> []"
    and "ObjectId_isValid rt userId" and "ObjectId_isValid rt challengeId"
    and "fault \<noteq> Some 0"
    and "findOne (challenges st) (ObjectId_hex rt challengeId) = Some ch"
    and "fld ch ''maxParticipants'' = JNum mx" and "mx \<noteq> 0"
    and "fld ch ''participants'' = JNum p" and "mx \<le> p"
  shows "join_challenge rt now new_id fault req_user challengeId st
           = (Fail 400 ''Challenge is full'', st)"
  using assms
  by (simp add: join_challenge_def withTransaction_def join_transaction_def tx_findOne_def
        session_view_def join_catch_def)

theorem C4_capacity_exceeded_witness:
  "join_challenge rt0 1000 ''333333333333333333333333'' None (Some bob)
     ''cccccccccccccccccccccccc'' full_store = (Fail 400 ''Challenge is full'', full_store)"
  using C4_capacity_exceeded [of "Some bob" bob "''bbbbbbbbbbbbbbbbbbbbbbbb''" rt0
      "''cccccccccccccccccccccccc''" None full_store "challenge_c 1 (JNum 1)" 1 1 1000
      "''333333333333333333333333''"]
  by (simp add: bob_def rt0_def hex_digit_def full_store_def findOne_def challenge_c_def fld_def)

text \<open>
  C4 as stated fails: with \<^verbatim>\<open>maxParticipants\<close> set to 0, which an update can store, and
  3 participants, the counter is at or above the capacity, yet the join succeeds (the guard
  on line 335 is the truthiness of \<^verbatim>\<open>maxParticipants\<close>).
\<close>

theorem C4_counterexample:
  "findOne (challenges zero_cap_store) ''cccccccccccccccccccccccc'' = Some (challenge_c 3 (JNum 0))
   \<and> fld (challenge_c 3 (JNum 0)) ''maxParticipants'' = JNum 0
   \<and> fld (challenge_c 3 (JNum 0)) ''participants'' = JNum 3
   \<and> join_challenge rt0 1000 ''222222222222222222222222'' None (Some bob)
        ''cccccccccccccccccccccccc'' zero_cap_store = (Success 201 bob_in_c,
     \<lparr> challenges = [(challenge_c 3 (JNum 0))
                        (''participants'' \<mapsto> JNum 4, ''updatedAt'' \<mapsto> JDate 1000)],
       userChallenges = [bob_in_c] \<rparr>)"
  by (simp add: join_challenge_def withTransaction_def join_transaction_def tx_findOne_def
        tx_insertOne_uc_def tx_updateOne_def session_view_def session_write_def
        bob_def rt0_def hex_digit_def zero_cap_store_def findOne_def challenge_c_def fld_def
        insertOne_uc_def bob_in_c_def inc_participants_def round_double_exact Let_def)


section \<open>The update route\<close>

lemma set_fields_id: "set_fields data d = Inr d' \<Longrightarrow> d' ''_id'' = d ''_id''"
  by (auto simp: set_fields_def map_add_def split: option.splits if_splits)

lemma set_fields_result: "set_fields data d = Inr d' \<Longrightarrow> d' = d ++ data"
  by (auto simp: set_fields_def split: option.splits if_splits)

lemma updateOne_set_findOne:
  "updateOne (set_fields data) oid chs = Inr chs' \<Longrightarrow> findOne chs oid = Some ch \<Longrightarrow>
   findOne chs' oid = Some (ch ++ data)"
proof (induction chs arbitrary: chs')
  case Nil
  then show ?case by (simp add: findOne_def)
next
  case (Cons d ds)
  show ?case
  proof (cases "d ''_id'' = Some (JOid oid)")
    case True
    from Cons.prems(2) True have chd: "ch = d" by (simp add: findOne_def)
    from Cons.prems(1) True obtain d' where d': "set_fields data d = Inr d'" "chs' = d' # ds"
      by (cases "set_fields data d") simp_all
    from set_fields_id[OF d'(1)] True have "d' ''_id'' = Some (JOid oid)" by simp
    with d' chd set_fields_result[OF d'(1)] show ?thesis by (simp add: findOne_def)
  next
    case False
    from Cons.prems(1) False obtain ds' where
      ds': "updateOne (set_fields data) oid ds = Inr ds'" "chs' = d # ds'"
      by (cases "updateOne (set_fields data) oid ds") simp_all
    from False Cons.prems(2) have "findOne ds oid = Some ch" by (simp add: findOne_def)
    from Cons.IH[OF ds'(1) this] have "findOne ds' oid = Some (ch ++ data)" .
    with False ds' show ?thesis by (simp add: findOne_def)
  qed
qed

lemma update_challenge_success:
  assumes "update_challenge rt now fault req_user id' body st = (Success code value, st')"
  obtains existing where
    "findOne (challenges st) (ObjectId_hex rt id') = Some existing"
    and "findOne (challenges st') (ObjectId_hex rt id') = Some (existing ++ update_data rt now body)"
    and "value = Some (existing ++ update_data rt now body)"
    and "userChallenges st' = userChallenges st"
    and "updateOne (set_fields (update_data rt now body)) (ObjectId_hex rt id') (challenges st)
           = Inr (challenges st')"
proof -
  let ?oid = "ObjectId_hex rt id'"
  from assms obtain u where u: "req_user = Some u"
    by (auto simp: update_challenge_def split: option.splits)
  from assms u have ok: "ObjectId_isValid rt id'" "fault \<noteq> Some 0"
    by (auto simp: update_challenge_def split: if_splits)
  from assms u ok obtain existing where ex: "findOne (challenges st) ?oid = Some existing"
    by (cases "findOne (challenges st) ?oid") (simp_all add: update_challenge_def)
  from assms u ok ex obtain coll where
    fu: "findOneAndUpdate (update_data rt now body) ?oid (challenges st) = Inr (value, coll)"
    and st': "st' = st\<lparr> challenges := coll \<rparr>"
    by (cases "findOneAndUpdate (update_data rt now body) ?oid (challenges st)")
       (auto simp: update_challenge_def Let_def split: if_splits)
  from fu obtain coll' where up: "updateOne (set_fields (update_data rt now body)) ?oid (challenges st) = Inr coll'"
    by (cases "updateOne (set_fields (update_data rt now body)) ?oid (challenges st)")
       (simp_all add: findOneAndUpdate_def)
  from updateOne_set_findOne[OF up ex]
  have f': "findOne coll' ?oid = Some (existing ++ update_data rt now body)" .
  from fu up f' have "coll = coll'" "value = Some (existing ++ update_data rt now body)"
    by (auto simp: findOneAndUpdate_def split: if_splits)
  with f' st' ex up show thesis by (intro that[of existing]) simp_all
qed

lemma update_challenge_failure_unchanged:
  "update_challenge rt now fault req_user id' body st = (Fail c m, st') \<Longrightarrow> st' = st"
  by (auto simp: update_challenge_def Let_def split: option.splits if_splits sum.splits prod.splits)

lemma updateOne_set_findOne_other:
  "updateOne (set_fields data) oid chs = Inr chs' \<Longrightarrow> oid \<noteq> c \<Longrightarrow>
   findOne chs' c = findOne chs c"
proof (induction chs arbitrary: chs')
  case Nil
  then show ?case by simp
next
  case (Cons d ds)
  show ?case
  proof (cases "d ''_id'' = Some (JOid oid)")
    case True
    from Cons.prems(1) True obtain d' where d': "set_fields data d = Inr d'" "chs' = d' # ds"
      by (cases "set_fields data d") simp_all
    from set_fields_id[OF d'(1)] True have "d' ''_id'' = Some (JOid oid)" by simp
    with d' True Cons.prems(2) show ?thesis by (simp add: findOne_def)
  next
    case False
    from Cons.prems(1) False obtain ds' where
      ds': "updateOne (set_fields data) oid ds = Inr ds'" "chs' = d # ds'"
      by (cases "updateOne (set_fields data) oid ds") simp_all
    from Cons.IH[OF ds'(1) Cons.prems(2)] have "findOne ds' c = findOne ds c" .
    with ds' show ?thesis by (simp add: findOne_def)
  qed
qed

lemma update_data_other:
  "k \<noteq> ''startDate'' \<Longrightarrow> k \<noteq> ''endDate'' \<Longrightarrow> k \<noteq> ''updatedAt'' \<Longrightarrow>
   update_data rt now body k = body k"
  by (simp add: update_data_def Let_def)

lemma update_data_updatedAt: "update_data rt now body ''updatedAt'' = Some (JDate now)"
  by (simp add: update_data_def Let_def)

lemma update_data_startDate:
  "update_data rt now body ''startDate'' =
     (if truthy (fld body ''startDate'')
      then Some (date_or_null (parseDateSafe rt (fld body ''startDate'')))
      else body ''startDate'')"
  by (simp add: update_data_def Let_def)

lemma update_data_endDate:
  "update_data rt now body ''endDate'' =
     (if truthy (fld body ''endDate'')
      then Some (date_or_null (parseDateSafe rt (fld body ''endDate'')))
      else body ''endDate'')"
  by (simp add: update_data_def Let_def fld_def)

lemma sample_takeover:
  "update_challenge rt0 2000 None (Some admin) ''cccccccccccccccccccccccc'' takeover open_store
    = (Success 200 (Some (challenge_c 1 (JNum 5) ++ update_data rt0 2000 takeover)),
       \<lparr> challenges = [challenge_c 1 (JNum 5) ++ update_data rt0 2000 takeover],
         userChallenges = [alice_in_c] \<rparr>)"
  by (simp add: update_challenge_def admin_def rt0_def hex_digit_def open_store_def findOne_def
        challenge_c_def findOneAndUpdate_def set_fields_def update_data_def takeover_def fld_def
        slug_clash_def slug_keys_def Let_def)

text \<open>
  C9 (as amended). An authorised update that succeeds, with a body of plain field names,
  replaces the challenge by the merge of the stored document with the update data: every
  body field other than \<^verbatim>\<open>startDate\<close>, \<^verbatim>\<open>endDate\<close> and \<^verbatim>\<open>updatedAt\<close> is written
  verbatim (owner, slug, participants and maxParticipants included), fields the body does
  not name are kept, a truthy \<^verbatim>\<open>startDate\<close> or \<^verbatim>\<open>endDate\<close> is replaced by its parsed
  date (\<^verbatim>\<open>null\<close> when it does not parse), and \<^verbatim>\<open>updatedAt\<close> is the current time
  whatever the body says.
\<close>

theorem C9_update_writes_body:
  assumes "update_challenge rt now fault req_user id' body st = (Success code value, st')"
    and "\<forall>k. body k \<noteq> None \<longrightarrow> plain_name k"
  shows "\<exists>existing d'.
           findOne (challenges st) (ObjectId_hex rt id') = Some existing \<and>
           findOne (challenges st') (ObjectId_hex rt id') = Some d' \<and>
           d' = existing ++ update_data rt now body \<and>
           (\<forall>k v. body k = Some v \<and> k \<noteq> ''startDate'' \<and> k \<noteq> ''endDate'' \<and> k \<noteq> ''updatedAt''
                  \<longrightarrow> d' k = Some v) \<and>
           (\<forall>k. body k = None \<and> k \<noteq> ''updatedAt'' \<longrightarrow> d' k = existing k) \<and>
           (truthy (fld body ''startDate'')
              \<longrightarrow> d' ''startDate'' = Some (date_or_null (parseDateSafe rt (fld body ''startDate'')))) \<and>
           (truthy (fld body ''endDate'')
              \<longrightarrow> d' ''endDate'' = Some (date_or_null (parseDateSafe rt (fld body ''endDate'')))) \<and>
           d' ''updatedAt'' = Some (JDate now)"
proof -
  from assms(1) obtain existing where
    ex: "findOne (challenges st) (ObjectId_hex rt id') = Some existing"
    and ex': "findOne (challenges st') (ObjectId_hex rt id') = Some (existing ++ update_data rt now body)"
    by (rule update_challenge_success)
  let ?d = "existing ++ update_data rt now body"
  have verbatim: "\<forall>k v. body k = Some v \<and> k \<noteq> ''startDate'' \<and> k \<noteq> ''endDate'' \<and> k \<noteq> ''updatedAt''
                  \<longrightarrow> ?d k = Some v"
    by (simp add: map_add_def update_data_other)
  have frame: "\<forall>k. body k = None \<and> k \<noteq> ''updatedAt'' \<longrightarrow> ?d k = existing k"
  proof (intro allI impI)
    fix k assume k: "body k = None \<and> k \<noteq> ''updatedAt''"
    then have "\<not> truthy (fld body k)" by (simp add: fld_def)
    with k have "update_data rt now body k = None"
      by (cases "k = ''startDate''"; cases "k = ''endDate''")
         (simp_all add: update_data_startDate update_data_endDate update_data_other)
    then show "?d k = existing k" by (simp add: map_add_def)
  qed
  have sd: "truthy (fld body ''startDate'')
              \<longrightarrow> ?d ''startDate'' = Some (date_or_null (parseDateSafe rt (fld body ''startDate'')))"
    by (simp add: map_add_def update_data_startDate)
  have ed: "truthy (fld body ''endDate'')
              \<longrightarrow> ?d ''endDate'' = Some (date_or_null (parseDateSafe rt (fld body ''endDate'')))"
    by (simp add: map_add_def update_data_endDate)
  have ua: "?d ''updatedAt'' = Some (JDate now)"
    by (simp add: map_add_def update_data_updatedAt)
  show ?thesis
    by (intro exI[of _ existing] exI[of _ "?d"] conjI ex ex' verbatim frame sd ed ua refl)
qed

theorem C9_update_writes_body_witness:
  "findOne (challenges (snd (update_challenge rt0 2000 None (Some admin)
       ''cccccccccccccccccccccccc'' takeover open_store))) ''cccccccccccccccccccccccc''
     = Some (challenge_c 1 (JNum 5) ++ update_data rt0 2000 takeover)
   \<and> (challenge_c 1 (JNum 5) ++ update_data rt0 2000 takeover) ''owner'' = Some (JStr ''mallory'')
   \<and> (challenge_c 1 (JNum 5) ++ update_data rt0 2000 takeover) ''slug'' = Some (JStr ''taken'')
   \<and> (challenge_c 1 (JNum 5) ++ update_data rt0 2000 takeover) ''participants'' = Some (JNum 99)
   \<and> (challenge_c 1 (JNum 5) ++ update_data rt0 2000 takeover) ''maxParticipants'' = Some (JNum 1)
   \<and> (challenge_c 1 (JNum 5) ++ update_data rt0 2000 takeover) ''title'' = Some (JStr ''Plant a tree'')"
proof -
  have plain: "\<forall>k. takeover k \<noteq> None \<longrightarrow> plain_name k"
    by (simp add: takeover_def plain_name_def)
  have oid: "ObjectId_hex rt0 ''cccccccccccccccccccccccc'' = ''cccccccccccccccccccccccc''"
    by (simp add: rt0_def)
  from C9_update_writes_body [OF sample_takeover plain, unfolded oid]
  obtain existing d' where
    e: "findOne (challenges open_store) ''cccccccccccccccccccccccc'' = Some existing"
    and d': "findOne (challenges \<lparr> challenges = [challenge_c 1 (JNum 5) ++ update_data rt0 2000 takeover],
                userChallenges = [alice_in_c] \<rparr>) ''cccccccccccccccccccccccc'' = Some d'" 
       "d' = existing ++ update_data rt0 2000 takeover"
    and v: "\<forall>k v. takeover k = Some v \<and> k \<noteq> ''startDate'' \<and> k \<noteq> ''endDate'' \<and> k \<noteq> ''updatedAt''
                  \<longrightarrow> d' k = Some v"
    and f: "\<forall>k. takeover k = None \<and> k \<noteq> ''updatedAt'' \<longrightarrow> d' k = existing k"
    by auto
  from e have existing: "existing = challenge_c 1 (JNum 5)"
    by (simp add: open_store_def findOne_def challenge_c_def)
  have t: "takeover ''owner'' = Some (JStr ''mallory'')" "takeover ''slug'' = Some (JStr ''taken'')"
    "takeover ''participants'' = Some (JNum 99)" "takeover ''maxParticipants'' = Some (JNum 1)"
    "takeover ''title'' = None"
    by (simp_all add: takeover_def)
  from v t have "d' ''owner'' = Some (JStr ''mallory'')" "d' ''slug'' = Some (JStr ''taken'')"
    "d' ''participants'' = Some (JNum 99)" "d' ''maxParticipants'' = Some (JNum 1)"
    by simp_all
  moreover from f t have "d' ''title'' = Some (JStr ''Plant a tree'')"
    by (simp add: existing challenge_c_def)
  ultimately show ?thesis using d' existing by (simp add: sample_takeover)
qed

text \<open>
  C9 as stated fails: the body field \<^verbatim>\<open>startDate: "soon"\<close> is not written verbatim; the
  stored \<^verbatim>\<open>startDate\<close> becomes \<^verbatim>\<open>null\<close>.
\<close>

theorem C9_counterexample:
  "typo ''startDate'' = Some (JStr ''soon'')
   \<and> fst (update_challenge rt0 2000 None (Some admin) ''cccccccccccccccccccccccc'' typo open_store)
       = Success 200 (Some ((challenge_c 1 (JNum 5))
                      (''startDate'' \<mapsto> JNull, ''updatedAt'' \<mapsto> JDate 2000)))
   \<and> JNull \<noteq> JStr ''soon''"
  by (simp add: update_challenge_def admin_def rt0_def hex_digit_def open_store_def findOne_def
        challenge_c_def findOneAndUpdate_def set_fields_def update_data_def typo_def fld_def
        slug_clash_def slug_keys_def parseDateSafe_def date_or_null_def Let_def)



section \<open>The create route\<close>

lemma create_catch_Fail: "(create_catch e :: doc response) \<noteq> Success c d"
  by (simp add: create_catch_def)

lemma create_challenge_failure_unchanged:
  "create_challenge rt now new_id fault req_user body st = (Fail c m, st') \<Longrightarrow> st' = st"
  by (auto simp: create_challenge_def split: option.splits if_splits sum.splits prod.splits)

lemma create_challenge_success:
  assumes "create_challenge rt now new_id fault req_user body st = (Success code d, st')"
  obtains owner sd ed where
    "d = (challenge_doc owner sd ed now body)(''_id'' \<mapsto> JOid new_id)"
    and "st' = st\<lparr> challenges := challenges st @ [d] \<rparr>"
    and "code = 201"
    and "findOne (challenges st) new_id = None"
proof -
  from assms obtain u where u: "req_user = Some u"
    by (auto simp: create_challenge_def split: option.splits)
  from assms u have nf: "first_missing body = None"
    by (cases "first_missing body") (simp_all add: create_challenge_def)
  from assms u nf obtain sd ed where sd: "parseDateSafe rt (fld body ''startDate'') = Some sd"
    and ed: "parseDateSafe rt (fld body ''endDate'') = Some ed"
    by (cases "parseDateSafe rt (fld body ''startDate'')"; cases "parseDateSafe rt (fld body ''endDate'')")
       (simp_all add: create_challenge_def)
  from assms u nf sd ed obtain owner where ow: "request_owner rt u = Inr owner"
    by (cases "request_owner rt u") (simp_all add: create_challenge_def create_catch_Fail)
  from assms u nf sd ed ow have nofault: "fault \<noteq> Some 0"
    by (auto simp: create_challenge_def create_catch_Fail)
  from assms u nf sd ed ow nofault obtain d0 coll where
    ins: "insertOne_challenge new_id (challenge_doc owner sd ed now body) (challenges st) = Inr (d0, coll)"
    by (cases "insertOne_challenge new_id (challenge_doc owner sd ed now body) (challenges st)")
       (auto simp: create_challenge_def create_catch_Fail)
  from assms u nf sd ed ow nofault ins have r: "d = d0" "st' = st\<lparr> challenges := coll \<rparr>" "code = 201"
    by (simp_all add: create_challenge_def)
  from ins have d0: "d0 = (challenge_doc owner sd ed now body)(''_id'' \<mapsto> JOid new_id)"
    "coll = challenges st @ [d0]"
    and none: "\<not> list_ex (\<lambda>x. x ''_id'' = Some (JOid new_id)) (challenges st)"
    by (auto simp: insertOne_challenge_def Let_def list_ex_iff split: if_splits)
  from none have "findOne (challenges st) new_id = None"
    by (simp add: findOne_def find_None_iff list_ex_iff)
  with r d0 show thesis by (intro that[of owner sd ed]) simp_all
qed

lemma create_challenge_succeeds:
  assumes "req_user = Some u" and "first_missing body = None"
    and "parseDateSafe rt (fld body ''startDate'') = Some sd"
    and "parseDateSafe rt (fld body ''endDate'') = Some ed"
    and "request_owner rt u = Inr owner" and "fault \<noteq> Some 0"
    and "\<not> list_ex (\<lambda>x. x ''_id'' = Some (JOid new_id) \<or>
            slug_clash ((challenge_doc owner sd ed now body)(''_id'' \<mapsto> JOid new_id)) x)
          (challenges st)"
  shows "create_challenge rt now new_id fault req_user body st =
           (Success 201 ((challenge_doc owner sd ed now body)(''_id'' \<mapsto> JOid new_id)),
            st\<lparr> challenges := challenges st @
                   [(challenge_doc owner sd ed now body)(''_id'' \<mapsto> JOid new_id)] \<rparr>)"
  using assms by (simp add: create_challenge_def insertOne_challenge_def Let_def)

lemma sample_create:
  "create_challenge rt0 10 ''cccccccccccccccccccccccc'' None (Some alice) (sample_body p mx) empty_store
     = (Success 201 (sample_created p mx),
        \<lparr> challenges = [sample_created p mx], userChallenges = [] \<rparr>)"
  by (simp add: create_challenge_def alice_def rt0_def hex_digit_def sample_body_def fld_def
        parseDateSafe_def new_ObjectId_def insertOne_challenge_def empty_store_def
        sample_created_def Let_def first_missing_def request_owner_def)

text \<open>
  C5 (as amended). A successful create appends one challenge whose \<^verbatim>\<open>participants\<close>
  is the number the body supplies when \<^verbatim>\<open>body.participants\<close> is a number, and 0
  otherwise.
\<close>

theorem C5_created_participants:
  assumes "create_challenge rt now new_id fault req_user body st = (Success code d, st')"
  shows "challenges st' = challenges st @ [d] \<and>
         d ''participants'' = Some (case fld body ''participants'' of JNum n \<Rightarrow> JNum n | _ \<Rightarrow> JNum 0)"
proof -
  from assms obtain owner sd ed where
    d: "d = (challenge_doc owner sd ed now body)(''_id'' \<mapsto> JOid new_id)"
    and st': "st' = st\<lparr> challenges := challenges st @ [d] \<rparr>"
    by (rule create_challenge_success)
  have "d ''participants'' = Some (case fld body ''participants'' of JNum n \<Rightarrow> JNum n | _ \<Rightarrow> JNum 0)"
    by (simp add: d challenge_doc_def)
  with st' show ?thesis by simp
qed

theorem C5_created_participants_witness:
  "challenges (snd (create_challenge rt0 10 ''cccccccccccccccccccccccc'' None (Some alice)
       (sample_body (JStr ''many'') JNull) empty_store)) = [sample_created (JStr ''many'') JNull]
   \<and> sample_created (JStr ''many'') JNull ''participants'' = Some (JNum 0)"
proof -
  have "sample_created (JStr ''many'') JNull ''participants''
          = Some (case fld (sample_body (JStr ''many'') JNull) ''participants'' of
                    JNum n \<Rightarrow> JNum n | _ \<Rightarrow> JNum 0)"
    using C5_created_participants [OF sample_create [of "JStr ''many''" JNull]] by simp
  then have "sample_created (JStr ''many'') JNull ''participants'' = Some (JNum 0)"
    by (simp add: sample_body_def fld_def)
  then show ?thesis by (simp add: sample_create)
qed

text \<open>
  C5 as stated fails: a body with \<^verbatim>\<open>participants: 7\<close> creates a challenge whose
  counter is 7.
\<close>

theorem C5_counterexample:
  "fst (create_challenge rt0 10 ''cccccccccccccccccccccccc'' None (Some alice)
       (sample_body (JNum 7) JNull) empty_store) = Success 201 (sample_created (JNum 7) JNull)
   \<and> sample_created (JNum 7) JNull ''participants'' = Some (JNum 7)
   \<and> JNum 7 \<noteq> JNum 0"
  by (simp add: sample_create) (simp add: sample_created_def challenge_doc_def sample_body_def fld_def)

lemma join_aborted_error:
  assumes "withTransaction commit_fails (join_transaction rt now new_id fault userId challengeId) st
             = (Inl e, st')"
    and "findOne (challenges st) (ObjectId_hex rt challengeId) = Some ch"
    and "\<not> truthy (fld ch ''maxParticipants'')"
  shows "err_code e \<noteq> Some 400"
  using assms
  by (auto simp: withTransaction_def join_transaction_def tx_findOne_def tx_insertOne_uc_def
        tx_updateOne_def session_view_def session_write_def Let_def insertOne_uc_def
        split: if_splits sum.splits prod.splits dest: updateOne_inc_error)

lemma create_falsy_capacity:
  assumes "create_challenge rt now new_id fault req_user body st = (Success code d, st')"
    and "\<not> truthy (fld body ''maxParticipants'')"
  shows "challenges st' = challenges st @ [d] \<and> d ''maxParticipants'' = Some JNull"
proof -
  from assms(1) obtain owner sd ed where
    d: "d = (challenge_doc owner sd ed now body)(''_id'' \<mapsto> JOid new_id)"
    and st': "st' = st\<lparr> challenges := challenges st @ [d] \<rparr>"
    by (rule create_challenge_success)
  from assms(2) have "d ''maxParticipants'' = Some JNull"
    by (simp add: d challenge_doc_def or_null_def)
  with st' show ?thesis by simp
qed

lemma create_falsy_capacity_succeeds:
  assumes "req_user = Some u" and "first_missing body = None"
    and "parseDateSafe rt (fld body ''startDate'') = Some sd"
    and "parseDateSafe rt (fld body ''endDate'') = Some ed"
    and "request_owner rt u = Inr owner" and "fault \<noteq> Some 0"
    and "\<not> list_ex (\<lambda>x. x ''_id'' = Some (JOid new_id) \<or>
            slug_clash ((challenge_doc owner sd ed now body)(''_id'' \<mapsto> JOid new_id)) x)
          (challenges st)"
    and "\<not> truthy (fld body ''maxParticipants'')"
  shows "\<exists>d. create_challenge rt now new_id fault req_user body st
               = (Success 201 d, st\<lparr> challenges := challenges st @ [d] \<rparr>) \<and>
             d ''_id'' = Some (JOid new_id) \<and> d ''maxParticipants'' = Some JNull"
proof -
  let ?d = "(challenge_doc owner sd ed now body)(''_id'' \<mapsto> JOid new_id)"
  have "?d ''maxParticipants'' = Some JNull"
    using assms(8) by (simp add: challenge_doc_def or_null_def)
  moreover have "?d ''_id'' = Some (JOid new_id)" by simp
  ultimately show ?thesis
    using create_challenge_succeeds[OF assms(1-7)] by blast
qed

lemma join_never_full_without_capacity:
  assumes "findOne (challenges st) (ObjectId_hex rt challengeId) = Some ch"
    and "\<not> truthy (fld ch ''maxParticipants'')"
  shows "fst (join_challenge rt now new_id fault req_user challengeId st)
           \<noteq> Fail 400 ''Challenge is full''"
proof (cases req_user)
  case None
  then show ?thesis by (simp add: join_challenge_def)
next
  case (Some u)
  note u = this
  show ?thesis
  proof (cases "user_id u")
    case None
    with u show ?thesis by (simp add: join_challenge_def)
  next
    case (Some userId)
    obtain r st' where w: "withTransaction (fault = Some 3)
        (join_transaction rt now new_id fault userId challengeId) st = (r, st')"
      by (cases "withTransaction (fault = Some 3)
        (join_transaction rt now new_id fault userId challengeId) st")
    show ?thesis
    proof (cases r)
      case (Inl e)
      with w assms have "err_code e \<noteq> Some 400" by (blast dest: join_aborted_error)
      then have "join_catch e \<noteq> (Fail 400 ''Challenge is full'' :: userChallenge response)"
        by (simp add: join_catch_def)
      with Inl w Some u show ?thesis
        by (simp add: join_challenge_def)
    next
      case (Inr row)
      with w Some u show ?thesis
        by (simp add: join_challenge_def)
    qed
  qed
qed

lemma updateOne_succeeds:
  "findOne chs oid = Some ch \<Longrightarrow> u ch = Inr ch' \<Longrightarrow> \<exists>chs'. updateOne u oid chs = Inr chs'"
proof (induction chs)
  case Nil
  then show ?case by (simp add: findOne_def)
next
  case (Cons d ds)
  show ?case
  proof (cases "d ''_id'' = Some (JOid oid)")
    case True
    with Cons.prems have "ch = d" by (simp add: findOne_def)
    with True Cons.prems(2) show ?thesis by simp
  next
    case False
    with Cons.prems have "findOne ds oid = Some ch" by (simp add: findOne_def)
    from Cons.IH[OF this Cons.prems(2)] obtain ds' where "updateOne u oid ds = Inr ds'" ..
    with False show ?thesis by simp
  qed
qed

lemma join_succeeds_without_capacity:
  assumes "req_user = Some u" and "user_id u = Some userId" and "userId \<noteq> []"
    and "ObjectId_isValid rt userId" and "ObjectId_isValid rt challengeId"
    and "findOne (challenges st) (ObjectId_hex rt challengeId) = Some ch"
    and "\<not> truthy (fld ch ''maxParticipants'')"
    and "ch ''participants'' = None \<or> (\<exists>p. ch ''participants'' = Some (JNum p))"
    and "\<not> list_ex (\<lambda>x. uc_id x = new_id \<or> (user x = ObjectId_hex rt userId \<and>
            challenge x = ObjectId_hex rt challengeId)) (userChallenges st)"
  shows "\<exists>row st'. join_challenge rt now new_id None req_user challengeId st
                     = (Success 201 row, st')"
proof -
  from assms(8) obtain ch' where "inc_participants now ch = Inr ch'"
    by (auto simp: inc_participants_def)
  with assms(6) obtain chs' where
    "updateOne (inc_participants now) (ObjectId_hex rt challengeId) (challenges st) = Inr chs'"
    using updateOne_succeeds[of "challenges st" "ObjectId_hex rt challengeId" ch
        "inc_participants now" ch'] by blast
  with assms(1-7,9) show ?thesis
    by (simp add: join_challenge_def withTransaction_def join_transaction_def tx_findOne_def
          tx_insertOne_uc_def tx_updateOne_def session_view_def session_write_def
          insertOne_uc_def Let_def)
qed

lemma sample_join:
  "join_challenge rt0 1000 ''222222222222222222222222'' None (Some bob) ''cccccccccccccccccccccccc''
     \<lparr> challenges = [sample_created (JNum 7) (JNum 0)], userChallenges = [] \<rparr>
   = (Success 201 bob_in_c,
      \<lparr> challenges = [(sample_created (JNum 7) (JNum 0))
                        (''participants'' \<mapsto> JNum 8, ''updatedAt'' \<mapsto> JDate 1000)],
        userChallenges = [bob_in_c] \<rparr>)"
  by (simp add: join_challenge_def withTransaction_def join_transaction_def tx_findOne_def
        tx_insertOne_uc_def tx_updateOne_def session_view_def session_write_def
        bob_def rt0_def hex_digit_def findOne_def
        sample_created_def challenge_doc_def sample_body_def fld_def or_null_def insertOne_uc_def
        bob_in_c_def inc_participants_def round_double_exact Let_def)

text \<open>
  C10. A create request that passes validation and insertion, and whose body has a falsy
  \<^verbatim>\<open>maxParticipants\<close> (0, absent, \<^verbatim>\<open>null\<close>, \<^verbatim>\<open>false\<close>, the empty string), is answered
  201 and stores the challenge with \<^verbatim>\<open>maxParticipants: null\<close>, as does every successful
  create with such a body. A join that targets a challenge whose \<^verbatim>\<open>maxParticipants\<close> is
  falsy is never answered 400 "Challenge is full"; when the request is valid, the user is no
  member yet, the counter is a number or absent and the store answers, it is answered 201,
  whatever the counter.
\<close>

theorem C10_falsy_capacity:
  "(req_user = Some u \<and> first_missing body = None \<and>
      parseDateSafe rt (fld body ''startDate'') = Some sd \<and>
      parseDateSafe rt (fld body ''endDate'') = Some ed \<and>
      request_owner rt u = Inr owner \<and> fault \<noteq> Some 0 \<and>
      \<not> list_ex (\<lambda>x. x ''_id'' = Some (JOid new_id) \<or>
            slug_clash ((challenge_doc owner sd ed now body)(''_id'' \<mapsto> JOid new_id)) x)
          (challenges st) \<and>
      \<not> truthy (fld body ''maxParticipants'')
      \<longrightarrow> (\<exists>d. create_challenge rt now new_id fault req_user body st
                  = (Success 201 d, st\<lparr> challenges := challenges st @ [d] \<rparr>) \<and>
                d ''_id'' = Some (JOid new_id) \<and> d ''maxParticipants'' = Some JNull))
   \<and> (create_challenge rt now new_id fault req_user body st = (Success code d', st') \<and>
      \<not> truthy (fld body ''maxParticipants'')
      \<longrightarrow> challenges st' = challenges st @ [d'] \<and> d' ''maxParticipants'' = Some JNull)
   \<and> (findOne (challenges st2) (ObjectId_hex rt challengeId) = Some ch \<and>
      \<not> truthy (fld ch ''maxParticipants'')
      \<longrightarrow> fst (join_challenge rt now2 new_id2 fault2 req_user2 challengeId st2)
            \<noteq> Fail 400 ''Challenge is full'')
   \<and> (findOne (challenges st2) (ObjectId_hex rt challengeId) = Some ch \<and>
      \<not> truthy (fld ch ''maxParticipants'') \<and>
      req_user2 = Some u2 \<and> user_id u2 = Some userId \<and> userId \<noteq> [] \<and>
      ObjectId_isValid rt userId \<and> ObjectId_isValid rt challengeId \<and>
      (ch ''participants'' = None \<or> (\<exists>p. ch ''participants'' = Some (JNum p))) \<and>
      \<not> list_ex (\<lambda>x. uc_id x = new_id2 \<or> (user x = ObjectId_hex rt userId \<and>
            challenge x = ObjectId_hex rt challengeId)) (userChallenges st2)
      \<longrightarrow> (\<exists>row st2'. join_challenge rt now2 new_id2 None req_user2 challengeId st2
                        = (Success 201 row, st2')))"
proof (intro conjI impI)
  assume "req_user = Some u \<and> first_missing body = None \<and>
      parseDateSafe rt (fld body ''startDate'') = Some sd \<and>
      parseDateSafe rt (fld body ''endDate'') = Some ed \<and>
      request_owner rt u = Inr owner \<and> fault \<noteq> Some 0 \<and>
      \<not> list_ex (\<lambda>x. x ''_id'' = Some (JOid new_id) \<or>
            slug_clash ((challenge_doc owner sd ed now body)(''_id'' \<mapsto> JOid new_id)) x)
          (challenges st) \<and>
      \<not> truthy (fld body ''maxParticipants'')"
  then show "\<exists>d. create_challenge rt now new_id fault req_user body st
                  = (Success 201 d, st\<lparr> challenges := challenges st @ [d] \<rparr>) \<and>
                d ''_id'' = Some (JOid new_id) \<and> d ''maxParticipants'' = Some JNull"
    by (intro create_falsy_capacity_succeeds[of req_user u body rt sd ed owner fault new_id now st])
       simp_all
next
  assume h: "create_challenge rt now new_id fault req_user body st = (Success code d', st') \<and>
      \<not> truthy (fld body ''maxParticipants'')"
  from create_falsy_capacity[of rt now new_id fault req_user body st code d' st'] h
  show "challenges st' = challenges st @ [d']" and "d' ''maxParticipants'' = Some JNull"
    by blast+
next
  assume "findOne (challenges st2) (ObjectId_hex rt challengeId) = Some ch \<and>
      \<not> truthy (fld ch ''maxParticipants'')"
  then show "fst (join_challenge rt now2 new_id2 fault2 req_user2 challengeId st2)
            \<noteq> Fail 400 ''Challenge is full''"
    using join_never_full_without_capacity[of st2 rt challengeId ch now2 new_id2 fault2 req_user2]
    by blast
next
  assume "findOne (challenges st2) (ObjectId_hex rt challengeId) = Some ch \<and>
      \<not> truthy (fld ch ''maxParticipants'') \<and>
      req_user2 = Some u2 \<and> user_id u2 = Some userId \<and> userId \<noteq> [] \<and>
      ObjectId_isValid rt userId \<and> ObjectId_isValid rt challengeId \<and>
      (ch ''participants'' = None \<or> (\<exists>p. ch ''participants'' = Some (JNum p))) \<and>
      \<not> list_ex (\<lambda>x. uc_id x = new_id2 \<or> (user x = ObjectId_hex rt userId \<and>
            challenge x = ObjectId_hex rt challengeId)) (userChallenges st2)"
  then show "\<exists>row st2'. join_challenge rt now2 new_id2 None req_user2 challengeId st2
                        = (Success 201 row, st2')"
    by (intro join_succeeds_without_capacity[of req_user2 u2 userId rt challengeId st2 ch new_id2 now2])
       simp_all
qed

theorem C10_falsy_capacity_witness:
  "create_challenge rt0 10 ''cccccccccccccccccccccccc'' None (Some alice)
      (sample_body (JNum 7) (JNum 0)) empty_store
     = (Success 201 (sample_created (JNum 7) (JNum 0)),
        \<lparr> challenges = [sample_created (JNum 7) (JNum 0)], userChallenges = [] \<rparr>)
   \<and> sample_created (JNum 7) (JNum 0) ''maxParticipants'' = Some JNull
   \<and> join_challenge rt0 1000 ''222222222222222222222222'' None (Some bob)
         ''cccccccccccccccccccccccc''
         \<lparr> challenges = [sample_created (JNum 7) (JNum 0)], userChallenges = [] \<rparr>
       = (Success 201 bob_in_c,
          \<lparr> challenges = [(sample_created (JNum 7) (JNum 0))
                            (''participants'' \<mapsto> JNum 8, ''updatedAt'' \<mapsto> JDate 1000)],
            userChallenges = [bob_in_c] \<rparr>)"
proof -
  note c = C10_falsy_capacity [where rt = rt0 and now = 10
      and new_id = "''cccccccccccccccccccccccc''"
      and fault = None and req_user = "Some alice" and u = alice
      and body = "sample_body (JNum 7) (JNum 0)"
      and sd = 1700000000000 and ed = 1800000000000
      and owner = "JOid ''aaaaaaaaaaaaaaaaaaaaaaaa''"
      and st = empty_store and code = 201 and d' = "sample_created (JNum 7) (JNum 0)"
      and st' = "\<lparr> challenges = [sample_created (JNum 7) (JNum 0)], userChallenges = [] \<rparr>"
      and ?st2.0 = "\<lparr> challenges = [sample_created (JNum 7) (JNum 0)], userChallenges = [] \<rparr>"
      and challengeId = "''cccccccccccccccccccccccc''" and ch = "sample_created (JNum 7) (JNum 0)"
      and ?now2.0 = 1000 and ?new_id2.0 = "''222222222222222222222222''" and ?fault2.0 = None
      and ?req_user2.0 = "Some bob" and ?u2.0 = bob and userId = "''bbbbbbbbbbbbbbbbbbbbbbbb''"]
  have pre: "first_missing (sample_body (JNum 7) (JNum 0)) = None"
    "parseDateSafe rt0 (fld (sample_body (JNum 7) (JNum 0)) ''startDate'') = Some 1700000000000"
    "parseDateSafe rt0 (fld (sample_body (JNum 7) (JNum 0)) ''endDate'') = Some 1800000000000"
    "request_owner rt0 alice = Inr (JOid ''aaaaaaaaaaaaaaaaaaaaaaaa'')"
    "\<not> truthy (fld (sample_body (JNum 7) (JNum 0)) ''maxParticipants'')"
    by (simp_all add: first_missing_def sample_body_def fld_def parseDateSafe_def rt0_def
          request_owner_def alice_def new_ObjectId_def hex_digit_def)
  from c pre have "\<exists>d. create_challenge rt0 10 ''cccccccccccccccccccccccc'' None (Some alice)
        (sample_body (JNum 7) (JNum 0)) empty_store
      = (Success 201 d, empty_store\<lparr> challenges := challenges empty_store @ [d] \<rparr>) \<and>
      d ''_id'' = Some (JOid ''cccccccccccccccccccccccc'') \<and> d ''maxParticipants'' = Some JNull"
    by (simp add: empty_store_def)
  then have "sample_created (JNum 7) (JNum 0) ''maxParticipants'' = Some JNull"
    by (auto simp: sample_create)
  then show ?thesis by (simp add: sample_create sample_join)
qed


section \<open>The counter and the membership rows\<close>

lemma findOne_append:
  "findOne (xs @ [d]) c =
     (case findOne xs c of
        Some x \<Rightarrow> Some x
      | None \<Rightarrow> if d ''_id'' = Some (JOid c) then Some d else None)"
  by (induction xs) (simp_all add: findOne_def)

lemma counted_empty: "counted empty_store c"
  by (simp add: counted_def empty_store_def findOne_def rows_of_def)

lemma counted_cong:
  "findOne (challenges st') c = findOne (challenges st) c \<Longrightarrow> rows_of st' c = rows_of st c \<Longrightarrow>
   counted st' c = counted st c"
  by (simp add: counted_def cong: option.case_cong jsval.case_cong)

lemma counted_create:
  assumes "counted st c" and "counter_safe rt c (Create now new_id fault req_user body)"
  shows "counted (snd (create_challenge rt now new_id fault req_user body st)) c"
proof (cases "create_challenge rt now new_id fault req_user body st")
  case (Pair resp st')
  show ?thesis
  proof (cases resp)
    case (Fail code m)
    with Pair have "st' = st" by (blast dest: create_challenge_failure_unchanged)
    with Pair assms(1) show ?thesis by simp
  next
    case (Success code d)
    with Pair obtain owner sd ed where
      d: "d = (challenge_doc owner sd ed now body)(''_id'' \<mapsto> JOid new_id)"
      and st': "st' = st\<lparr> challenges := challenges st @ [d] \<rparr>"
      and fresh: "findOne (challenges st) new_id = None"
      by (blast elim: create_challenge_success)
    have rows: "rows_of st' c = rows_of st c" by (simp add: st' rows_of_def)
    show ?thesis
    proof (cases "new_id = c")
      case False
      then have "findOne (challenges st') c = findOne (challenges st) c"
        by (simp add: st' findOne_append d split: option.splits)
      with rows assms(1) Pair show ?thesis by (simp add: counted_cong[of st' c st])
    next
      case True
      with fresh assms(1) have none: "rows_of st c = []" by (simp add: counted_def)
      from fresh True have f: "findOne (challenges st') c = Some d"
        by (simp add: st' findOne_append d)
      from assms(2) True have "fld d ''participants'' = JNum 0"
        by (auto simp: d challenge_doc_def fld_def split: jsval.splits)
      with f rows none Pair show ?thesis
        by (simp add: counted_def split: jsval.splits)
    qed
  qed
qed

lemma counted_update:
  assumes "counted st c" and "counter_safe rt c (Update now fault req_user id' body)"
  shows "counted (snd (update_challenge rt now fault req_user id' body st)) c"
proof (cases "update_challenge rt now fault req_user id' body st")
  case (Pair resp st')
  show ?thesis
  proof (cases resp)
    case (Fail code m)
    with Pair have "st' = st" by (blast dest: update_challenge_failure_unchanged)
    with Pair assms(1) show ?thesis by simp
  next
    case (Success code v)
    let ?oid = "ObjectId_hex rt id'"
    let ?data = "update_data rt now body"
    from Success Pair obtain existing where
      ex: "findOne (challenges st) ?oid = Some existing"
      and ex': "findOne (challenges st') ?oid = Some (existing ++ ?data)"
      and ucs: "userChallenges st' = userChallenges st"
      and upd: "updateOne (set_fields ?data) ?oid (challenges st) = Inr (challenges st')"
      by (blast elim: update_challenge_success)
    from ucs have rows: "rows_of st' c = rows_of st c" by (simp add: rows_of_def)
    show ?thesis
    proof (cases "?oid = c")
      case False
      with upd have "findOne (challenges st') c = findOne (challenges st) c"
        by (rule updateOne_set_findOne_other)
      with rows assms(1) Pair show ?thesis by (simp add: counted_cong[of st' c st])
    next
      case True
      with assms(2) have "?data ''participants'' = None" "?data ''maxParticipants'' = None"
        by (simp_all add: update_data_other)
      then have "fld (existing ++ ?data) ''participants'' = fld existing ''participants''"
        "fld (existing ++ ?data) ''maxParticipants'' = fld existing ''maxParticipants''"
        by (simp_all add: fld_def map_add_def)
      with ex ex' True rows assms(1) Pair show ?thesis
        by (simp add: counted_def cong: jsval.case_cong)
    qed
  qed
qed

lemma counted_join:
  assumes "counted st c"
  shows "counted (snd (join_challenge rt now new_id fault req_user challengeId st)) c"
proof (cases "join_challenge rt now new_id fault req_user challengeId st")
  case (Pair resp st')
  show ?thesis
  proof (cases resp)
    case (Fail code m)
    with Pair have "st' = st" by (blast dest: join_challenge_failure_unchanged)
    with Pair assms show ?thesis by simp
  next
    case (Success code row)
    let ?c = "ObjectId_hex rt challengeId"
    from Success Pair
    have "join_challenge rt now new_id fault req_user challengeId st = (Success code row, st')"
      by simp
    then obtain u userId ch ch' where
      r: "row = \<lparr> uc_id = new_id, user = ObjectId_hex rt userId,
                 challenge = ObjectId_hex rt challengeId,
                 joinedAt = now, progress = 0, status = ''joined'', meta = JNull,
                 createdAt = now, updatedAt = now \<rparr>"
      and ch: "findOne (challenges st) ?c = Some ch"
      and nf: "\<not> (truthy (fld ch ''maxParticipants'') \<and>
                  js_ge rt (fld ch ''participants'') (fld ch ''maxParticipants''))"
      and inc: "inc_participants now ch = Inr ch'"
      and ch': "findOne (challenges st') ?c = Some ch'"
      and upd: "updateOne (inc_participants now) ?c (challenges st) = Inr (challenges st')"
      and ucs: "userChallenges st' = userChallenges st @ [row]"
      by (rule join_challenge_success)
    from r have row: "challenge row = ?c" by simp
    show ?thesis
    proof (cases "?c = c")
      case False
      with upd have "findOne (challenges st') c = findOne (challenges st) c"
        by (rule updateOne_findOne_other)
      moreover from False row ucs have "rows_of st' c = rows_of st c"
        by (simp add: rows_of_def)
      ultimately show ?thesis using assms Pair by (simp add: counted_cong[of st' c st])
    next
      case True
      from row ucs True have rows: "length (rows_of st' c) = length (rows_of st c) + 1"
        by (simp add: rows_of_def)
      from inc have mx: "fld ch' ''maxParticipants'' = fld ch ''maxParticipants''"
        by (auto simp: inc_participants_def fld_def split: option.splits jsval.splits)
      have "fld ch' ''participants'' = JNum (int (length (rows_of st' c))) \<and>
            int (length (rows_of st' c)) \<le> N"
        if N: "fld ch ''maxParticipants'' = JNum N" "0 < N"
          "N \<le> 2 ^ 53 \<or> int (length (rows_of st' c)) \<le> 2 ^ 53" for N
      proof -
        let ?n = "int (length (rows_of st c))"
        from N(3) rows have before: "N \<le> 2 ^ 53 \<or> ?n \<le> 2 ^ 53" by auto
        with assms ch True N(1,2) have p: "fld ch ''participants'' = JNum ?n"
          by (simp add: counted_def)
        with nf N have less: "?n < N" by simp
        with N(3) rows have "\<bar>?n + 1\<bar> \<le> 9007199254740992" by auto
        then have r: "round_double (?n + 1) = ?n + 1" by (rule round_double_exact)
        from p inc have "fld ch' ''participants'' = JNum (round_double (?n + 1))"
          by (auto simp: inc_participants_def fld_def split: option.splits jsval.splits)
        with r rows less show ?thesis by simp
      qed
      then have "\<forall>N. fld ch ''maxParticipants'' = JNum N \<and> 0 < N \<and>
              (N \<le> 2 ^ 53 \<or> int (length (rows_of st' c)) \<le> 2 ^ 53) \<longrightarrow>
            fld ch' ''participants'' = JNum (int (length (rows_of st' c))) \<and>
            int (length (rows_of st' c)) \<le> N"
        by blast
      with ch' True mx Pair show ?thesis
        by (simp add: counted_def split: jsval.splits)
    qed
  qed
qed

lemma counted_run:
  "counted st c \<Longrightarrow> list_all (counter_safe rt c) ops \<Longrightarrow> counted (run rt ops st) c"
proof (induction ops arbitrary: st)
  case Nil
  then show ?case by (simp add: run_def)
next
  case (Cons op ops)
  from Cons.prems have "counted (apply_operation rt st op) c"
    by (cases op) (simp_all add: counted_create counted_update counted_join)
  with Cons.prems(2) have "counted (run rt ops (apply_operation rt st op)) c"
    by (intro Cons.IH) simp_all
  then show ?case by (simp add: run_def)
qed

lemma bob_joins:
  assumes "d ''_id'' = Some (JOid ''cccccccccccccccccccccccc'')"
    and "d ''participants'' = Some (JNum p)"
    and "\<not> (truthy (fld d ''maxParticipants'') \<and> js_ge rt0 (JNum p) (fld d ''maxParticipants''))"
    and "\<not> list_ex (\<lambda>x. uc_id x = ''222222222222222222222222'' \<or>
            (user x = ''bbbbbbbbbbbbbbbbbbbbbbbb'' \<and> challenge x = ''cccccccccccccccccccccccc''))
          rows"
  shows "join_challenge rt0 1000 ''222222222222222222222222'' None (Some bob)
           ''cccccccccccccccccccccccc'' \<lparr> challenges = [d], userChallenges = rows \<rparr>
         = (Success 201 bob_in_c,
            \<lparr> challenges = [d(''participants'' \<mapsto> JNum (round_double (p + 1)),
                               ''updatedAt'' \<mapsto> JDate 1000)],
              userChallenges = rows @ [bob_in_c] \<rparr>)"
proof -
  have v: "ObjectId_isValid rt0 ''bbbbbbbbbbbbbbbbbbbbbbbb''"
    "ObjectId_isValid rt0 ''cccccccccccccccccccccccc''"
    "ObjectId_hex rt0 = (\<lambda>s. s)"
    by (simp_all add: rt0_def hex_digit_def)
  from assms(1) have f: "findOne [d] ''cccccccccccccccccccccccc'' = Some d"
    by (simp add: findOne_def)
  from assms(2) have p: "fld d ''participants'' = JNum p" by (simp add: fld_def)
  from assms show ?thesis
    by (simp add: join_challenge_def withTransaction_def join_transaction_def tx_findOne_def
        tx_insertOne_uc_def tx_updateOne_def session_view_def session_write_def
        bob_def v f p insertOne_uc_def bob_in_c_def inc_participants_def Let_def)
qed

lemma bob_joins_again:
  "snd (join_challenge rt0 now new_id fault (Some bob) ''cccccccccccccccccccccccc''
          \<lparr> challenges = chs, userChallenges = [bob_in_c] \<rparr>)
     = \<lparr> challenges = chs, userChallenges = [bob_in_c] \<rparr>"
proof -
  have "memberships \<lparr> challenges = chs, userChallenges = [bob_in_c] \<rparr>
          (ObjectId_hex rt0 ''bbbbbbbbbbbbbbbbbbbbbbbb'')
          (ObjectId_hex rt0 ''cccccccccccccccccccccccc'') \<noteq> []"
    by (simp add: memberships_def bob_in_c_def rt0_def)
  with join_challenge_fails_when_member[of "Some bob" bob "''bbbbbbbbbbbbbbbbbbbbbbbb''"
      "\<lparr> challenges = chs, userChallenges = [bob_in_c] \<rparr>" rt0 "''cccccccccccccccccccccccc''"
      now new_id fault]
  show ?thesis by (auto simp: bob_def)
qed

lemma admin_updates:
  assumes "d ''_id'' = Some (JOid ''cccccccccccccccccccccccc'')" and "body ''_id'' = None"
  shows "update_challenge rt0 2000 None (Some admin) ''cccccccccccccccccccccccc'' body
           \<lparr> challenges = [d], userChallenges = rows \<rparr>
         = (Success 200 (Some (d ++ update_data rt0 2000 body)),
            \<lparr> challenges = [d ++ update_data rt0 2000 body], userChallenges = rows \<rparr>)"
proof -
  have v: "ObjectId_isValid rt0 ''cccccccccccccccccccccccc''" "ObjectId_hex rt0 = (\<lambda>s. s)"
    by (simp_all add: rt0_def hex_digit_def)
  from assms(2) have i: "update_data rt0 2000 body ''_id'' = None"
    by (simp add: update_data_other)
  with assms(1) have i': "(d ++ update_data rt0 2000 body) ''_id'' = Some (JOid ''cccccccccccccccccccccccc'')"
    by (simp add: map_add_def)
  from assms(1) have f: "findOne [d] ''cccccccccccccccccccccccc'' = Some d"
    by (simp add: findOne_def)
  from i' have f': "findOne [d ++ update_data rt0 2000 body] ''cccccccccccccccccccccccc''
      = Some (d ++ update_data rt0 2000 body)"
    by (simp add: findOne_def)
  from assms(1) i show ?thesis
    by (simp add: update_challenge_def admin_def v f f' findOneAndUpdate_def set_fields_def Let_def)
qed

lemma sample_created_fields:
  "sample_created p mx ''_id'' = Some (JOid ''cccccccccccccccccccccccc'')"
  "sample_created p mx ''participants'' = Some (case p of JNum n \<Rightarrow> JNum n | _ \<Rightarrow> JNum 0)"
  "fld (sample_created p mx) ''maxParticipants'' = (if truthy mx then mx else JNull)"
  "fld (sample_created p mx) ''participants'' = (case p of JNum n \<Rightarrow> JNum n | _ \<Rightarrow> JNum 0)"
  by (simp_all add: sample_created_def challenge_doc_def sample_body_def fld_def or_null_def)

lemma sample_run_result:
  "run rt0 sample_run empty_store =
     \<lparr> challenges = [(sample_created (JStr ''many'') (JNum 5))
                        (''participants'' \<mapsto> JNum 1, ''updatedAt'' \<mapsto> JDate 1000)
                        ++ update_data rt0 2000 typo],
       userChallenges = [bob_in_c] \<rparr>"
proof -
  let ?d = "sample_created (JStr ''many'') (JNum 5)"
  have j: "join_challenge rt0 1000 ''222222222222222222222222'' None (Some bob)
           ''cccccccccccccccccccccccc'' \<lparr> challenges = [?d], userChallenges = [] \<rparr>
         = (Success 201 bob_in_c,
            \<lparr> challenges = [?d(''participants'' \<mapsto> JNum 1, ''updatedAt'' \<mapsto> JDate 1000)],
              userChallenges = [bob_in_c] \<rparr>)"
    using bob_joins[of ?d 0 "[]"] by (simp add: sample_created_fields round_double_exact)
  show ?thesis
    by (simp add: run_def sample_run_def sample_create j bob_joins_again admin_updates typo_def
          sample_created_fields)
qed

lemma overwriting_run_result:
  "run rt0 overwriting_run empty_store =
     \<lparr> challenges = [(sample_created (JNum 0) (JNum 5))
                        (''participants'' \<mapsto> JNum 1, ''updatedAt'' \<mapsto> JDate 1000)
                        ++ update_data rt0 2000 takeover],
       userChallenges = [bob_in_c] \<rparr>"
proof -
  let ?d = "sample_created (JNum 0) (JNum 5)"
  have j: "join_challenge rt0 1000 ''222222222222222222222222'' None (Some bob)
           ''cccccccccccccccccccccccc'' \<lparr> challenges = [?d], userChallenges = [] \<rparr>
         = (Success 201 bob_in_c,
            \<lparr> challenges = [?d(''participants'' \<mapsto> JNum 1, ''updatedAt'' \<mapsto> JDate 1000)],
              userChallenges = [bob_in_c] \<rparr>)"
    using bob_joins[of ?d 0 "[]"] by (simp add: sample_created_fields round_double_exact)
  show ?thesis
    by (simp add: run_def overwriting_run_def sample_create j admin_updates takeover_def
          sample_created_fields)
qed

lemma hex24_0: "i < 2 ^ 53 \<Longrightarrow> hex24 i ! 0 = CHR ''0''"
proof -
  assume "i < 2 ^ 53"
  then have "i < 16 ^ 23" by simp
  then have "i div 16 ^ 23 = 0" by simp
  then show ?thesis by (simp add: hex24_def)
qed

lemma crowd_no_bob:
  assumes "n \<le> 2 ^ 53"
  shows "\<not> list_ex (\<lambda>x. uc_id x = ''222222222222222222222222'' \<or>
            (user x = ''bbbbbbbbbbbbbbbbbbbbbbbb'' \<and> challenge x = ''cccccccccccccccccccccccc''))
          (map member [0 ..< n])"
proof -
  have "hex24 i \<noteq> ''222222222222222222222222'' \<and> hex24 i \<noteq> ''bbbbbbbbbbbbbbbbbbbbbbbb''"
    if "i < n" for i
  proof -
    from that assms have "hex24 i ! 0 = CHR ''0''" by (intro hex24_0) simp
    then show ?thesis by auto
  qed
  then show ?thesis by (auto simp: list_ex_iff member_def)
qed

lemma crowd_join:
  assumes "n \<le> 2 ^ 53"
  shows "join_challenge rt0 1000 ''222222222222222222222222'' None (Some bob)
           ''cccccccccccccccccccccccc'' (crowd n)
         = (Success 201 bob_in_c,
            \<lparr> challenges = [(challenge_c (int n) (JNum (int n + 2)))
                               (''participants'' \<mapsto> JNum (round_double (int n + 1)),
                                ''updatedAt'' \<mapsto> JDate 1000)],
              userChallenges = map member [0 ..< n] @ [bob_in_c] \<rparr>)"
  unfolding crowd_def
  by (rule bob_joins) (simp_all add: challenge_c_def fld_def crowd_no_bob[OF assms])

lemma crowd_rows: "length (rows_of (crowd n) ''cccccccccccccccccccccccc'') = n"
  by (simp add: rows_of_def crowd_def member_def o_def)

text \<open>
  C2 (as amended). Start from the empty store and run any sequence of create, update and
  join requests in which the create of challenge \<open>c\<close> gives no number other than 0 for
  \<^verbatim>\<open>participants\<close> and no update of \<open>c\<close> names \<^verbatim>\<open>participants\<close> or
  \<^verbatim>\<open>maxParticipants\<close>. If \<open>c\<close> is then stored with \<^verbatim>\<open>maxParticipants\<close> a positive
  integer \<open>N\<close>, and \<open>N\<close> or the number of the membership rows of \<open>c\<close> is at most
  \<open>2 ^ 53\<close>, then its \<^verbatim>\<open>participants\<close> is the number of the membership rows of
  \<open>c\<close>, and that number does not exceed \<open>N\<close>. Requests on other challenges are not
  restricted.
\<close>

theorem C2_counter_consistent:
  assumes "list_all (counter_safe rt c) ops"
    and "findOne (challenges (run rt ops empty_store)) c = Some ch"
    and "fld ch ''maxParticipants'' = JNum N" and "0 < N"
    and "N \<le> 2 ^ 53 \<or> int (length (rows_of (run rt ops empty_store) c)) \<le> 2 ^ 53"
  shows "fld ch ''participants'' = JNum (int (length (rows_of (run rt ops empty_store) c))) \<and>
         int (length (rows_of (run rt ops empty_store) c)) \<le> N"
proof -
  from counted_empty assms(1) have "counted (run rt ops empty_store) c" by (rule counted_run)
  with assms(2-5) show ?thesis by (simp add: counted_def)
qed

theorem C2_counter_consistent_witness:
  "list_all (counter_safe rt0 ''cccccccccccccccccccccccc'') sample_run
   \<and> run rt0 sample_run empty_store =
       \<lparr> challenges = [(sample_created (JStr ''many'') (JNum 5))
                          (''participants'' \<mapsto> JNum 1, ''updatedAt'' \<mapsto> JDate 1000)
                          ++ update_data rt0 2000 typo],
         userChallenges = [bob_in_c] \<rparr>
   \<and> fld ((sample_created (JStr ''many'') (JNum 5))
            (''participants'' \<mapsto> JNum 1, ''updatedAt'' \<mapsto> JDate 1000)
            ++ update_data rt0 2000 typo) ''maxParticipants'' = JNum 5
   \<and> fld ((sample_created (JStr ''many'') (JNum 5))
            (''participants'' \<mapsto> JNum 1, ''updatedAt'' \<mapsto> JDate 1000)
            ++ update_data rt0 2000 typo) ''participants'' = JNum 1
   \<and> rows_of (run rt0 sample_run empty_store) ''cccccccccccccccccccccccc'' = [bob_in_c]"
proof -
  let ?ch = "(sample_created (JStr ''many'') (JNum 5))
               (''participants'' \<mapsto> JNum 1, ''updatedAt'' \<mapsto> JDate 1000)
             ++ update_data rt0 2000 typo"
  have safe: "list_all (counter_safe rt0 ''cccccccccccccccccccccccc'') sample_run"
    by (simp add: sample_run_def sample_body_def fld_def typo_def)
  have found: "findOne (challenges (run rt0 sample_run empty_store)) ''cccccccccccccccccccccccc''
                 = Some ?ch"
    by (simp add: sample_run_result findOne_def map_add_def update_data_other typo_def
          sample_created_fields)
  have cap: "fld ?ch ''maxParticipants'' = JNum 5"
    by (simp add: fld_def map_add_def update_data_other typo_def sample_created_def
          challenge_doc_def sample_body_def or_null_def)
  have rows: "rows_of (run rt0 sample_run empty_store) ''cccccccccccccccccccccccc'' = [bob_in_c]"
    by (simp add: sample_run_result rows_of_def bob_in_c_def)
  from C2_counter_consistent[OF safe found cap] rows
  have "fld ?ch ''participants'' = JNum 1" by simp
  with safe cap rows show ?thesis by (simp add: sample_run_result)
qed

text \<open>
  C2 as stated fails, in each of four ways. A create with \<^verbatim>\<open>maxParticipants: -1\<close>
  stores the capacity -1 under the counter 0. A create with \<^verbatim>\<open>participants: 5\<close> and
  \<^verbatim>\<open>maxParticipants: 3\<close> stores the counter 5 over the capacity 3, with no membership
  row. An update that names \<^verbatim>\<open>participants\<close> and \<^verbatim>\<open>maxParticipants\<close> writes the
  counter 99 and the capacity 1 on a challenge that has one membership row. And on a
  challenge of capacity \<open>2 ^ 53 + 2\<close> whose counter and membership rows both number
  \<open>2 ^ 53\<close>, a join adds a row and leaves the counter, the double nearest to
  \<open>2 ^ 53 + 1\<close> being \<open>2 ^ 53\<close>.
\<close>

theorem C2_counterexample:
  "list_all (counter_safe rt0 ''cccccccccccccccccccccccc'') negative_run
   \<and> run rt0 negative_run empty_store =
       \<lparr> challenges = [sample_created (JNum 0) (JNum (- 1))], userChallenges = [] \<rparr>
   \<and> fld (sample_created (JNum 0) (JNum (- 1))) ''maxParticipants'' = JNum (- 1)
   \<and> fld (sample_created (JNum 0) (JNum (- 1))) ''participants'' = JNum 0
   \<and> run rt0 overcounted_run empty_store =
       \<lparr> challenges = [sample_created (JNum 5) (JNum 3)], userChallenges = [] \<rparr>
   \<and> fld (sample_created (JNum 5) (JNum 3)) ''maxParticipants'' = JNum 3
   \<and> fld (sample_created (JNum 5) (JNum 3)) ''participants'' = JNum 5
   \<and> run rt0 overwriting_run empty_store =
       \<lparr> challenges = [(sample_created (JNum 0) (JNum 5))
                          (''participants'' \<mapsto> JNum 1, ''updatedAt'' \<mapsto> JDate 1000)
                          ++ update_data rt0 2000 takeover],
         userChallenges = [bob_in_c] \<rparr>
   \<and> fld ((sample_created (JNum 0) (JNum 5))
            (''participants'' \<mapsto> JNum 1, ''updatedAt'' \<mapsto> JDate 1000)
            ++ update_data rt0 2000 takeover) ''maxParticipants'' = JNum 1
   \<and> fld ((sample_created (JNum 0) (JNum 5))
            (''participants'' \<mapsto> JNum 1, ''updatedAt'' \<mapsto> JDate 1000)
            ++ update_data rt0 2000 takeover) ''participants'' = JNum 99
   \<and> findOne (challenges (crowd 9007199254740992)) ''cccccccccccccccccccccccc''
       = Some (challenge_c 9007199254740992 (JNum 9007199254740994))
   \<and> length (rows_of (crowd 9007199254740992) ''cccccccccccccccccccccccc'') = 9007199254740992
   \<and> fst (join_challenge rt0 1000 ''222222222222222222222222'' None (Some bob)
            ''cccccccccccccccccccccccc'' (crowd 9007199254740992)) = Success 201 bob_in_c
   \<and> findOne (challenges (snd (join_challenge rt0 1000 ''222222222222222222222222'' None (Some bob)
            ''cccccccccccccccccccccccc'' (crowd 9007199254740992)))) ''cccccccccccccccccccccccc''
       = Some ((challenge_c 9007199254740992 (JNum 9007199254740994))
                (''participants'' \<mapsto> JNum 9007199254740992, ''updatedAt'' \<mapsto> JDate 1000))
   \<and> length (rows_of (snd (join_challenge rt0 1000 ''222222222222222222222222'' None (Some bob)
            ''cccccccccccccccccccccccc'' (crowd 9007199254740992))) ''cccccccccccccccccccccccc'')
       = 9007199254740993"
proof -
  have safe: "list_all (counter_safe rt0 ''cccccccccccccccccccccccc'') negative_run"
    by (simp add: negative_run_def sample_body_def fld_def)
  have neg: "run rt0 negative_run empty_store =
       \<lparr> challenges = [sample_created (JNum 0) (JNum (- 1))], userChallenges = [] \<rparr>"
    "fld (sample_created (JNum 0) (JNum (- 1))) ''maxParticipants'' = JNum (- 1)"
    "fld (sample_created (JNum 0) (JNum (- 1))) ''participants'' = JNum 0"
    by (simp_all add: negative_run_def run_def sample_create sample_created_fields)
  have over: "run rt0 overcounted_run empty_store =
       \<lparr> challenges = [sample_created (JNum 5) (JNum 3)], userChallenges = [] \<rparr>"
    "fld (sample_created (JNum 5) (JNum 3)) ''maxParticipants'' = JNum 3"
    "fld (sample_created (JNum 5) (JNum 3)) ''participants'' = JNum 5"
    by (simp_all add: overcounted_run_def run_def sample_create sample_created_fields)
  have upd: "fld ((sample_created (JNum 0) (JNum 5))
            (''participants'' \<mapsto> JNum 1, ''updatedAt'' \<mapsto> JDate 1000)
            ++ update_data rt0 2000 takeover) ''maxParticipants'' = JNum 1"
    "fld ((sample_created (JNum 0) (JNum 5))
            (''participants'' \<mapsto> JNum 1, ''updatedAt'' \<mapsto> JDate 1000)
            ++ update_data rt0 2000 takeover) ''participants'' = JNum 99"
    by (simp_all add: fld_def map_add_def update_data_other takeover_def)
  have "(9007199254740992::nat) \<le> 2 ^ 53" by simp
  note j = crowd_join[OF this]
  have r: "round_double (int 9007199254740992 + 1) = 9007199254740992"
    using round_double_2_53_1 by simp
  have c0: "findOne (challenges (crowd n)) ''cccccccccccccccccccccccc''
       = Some (challenge_c (int n) (JNum (int n + 2)))" for n
    by (simp add: crowd_def findOne_def challenge_c_def)
  have c1: "length (rows_of \<lparr> challenges = chs, userChallenges = map member [0 ..< n] @ [bob_in_c] \<rparr>
        ''cccccccccccccccccccccccc'') = n + 1" for chs n
    by (simp add: rows_of_def member_def o_def bob_in_c_def)
  have crowd: "findOne (challenges (crowd 9007199254740992)) ''cccccccccccccccccccccccc''
       = Some (challenge_c 9007199254740992 (JNum 9007199254740994))"
    "length (rows_of (crowd 9007199254740992) ''cccccccccccccccccccccccc'') = 9007199254740992"
    "fst (join_challenge rt0 1000 ''222222222222222222222222'' None (Some bob)
            ''cccccccccccccccccccccccc'' (crowd 9007199254740992)) = Success 201 bob_in_c"
    "findOne (challenges (snd (join_challenge rt0 1000 ''222222222222222222222222'' None (Some bob)
            ''cccccccccccccccccccccccc'' (crowd 9007199254740992)))) ''cccccccccccccccccccccccc''
       = Some ((challenge_c 9007199254740992 (JNum 9007199254740994))
                (''participants'' \<mapsto> JNum 9007199254740992, ''updatedAt'' \<mapsto> JDate 1000))"
    "length (rows_of (snd (join_challenge rt0 1000 ''222222222222222222222222'' None (Some bob)
            ''cccccccccccccccccccccccc'' (crowd 9007199254740992))) ''cccccccccccccccccccccccc'')
       = 9007199254740993"
    using c0[of 9007199254740992]
    by (simp_all add: crowd_rows j r c1 findOne_def challenge_c_def round_double_2_53_1
          del: upt_rec_numeral)
  from safe neg over upd crowd show ?thesis by (simp only: overwriting_run_result simp_thms)
qed


section \<open>The filter builder\<close>

lemma match_here_literal:
  "match_here (map Lit s) t \<longleftrightarrow> prefix (map upper s) (map upper t)"
proof (induction s arbitrary: t)
  case Nil
  then show ?case by simp
next
  case (Cons c cs)
  then show ?case by (cases t) simp_all
qed

lemma regex_search_literal:
  "regex_search (map Lit s) t \<longleftrightarrow> sublist (map upper s) (map upper t)"
proof (induction t)
  case Nil
  then show ?case by (cases s) simp_all
next
  case (Cons x xs)
  then show ?case
    using match_here_literal[of s "x # xs"] by (simp add: sublist_Cons_right)
qed

lemma atoms_of_plain:
  "list_all (\<lambda>c. \<not> metachar c) s \<Longrightarrow> map atom_of s = map Lit s"
  by (induction s) (auto simp: atom_of_def metachar_def)

lemma new_RegExp_plain:
  assumes "list_all (\<lambda>c. \<not> metachar c) s"
  shows "new_RegExp rt s = Inr (regex_search (map Lit s))"
proof -
  from assms have ok: "list_all (\<lambda>c. \<not> metachar c \<or> c = CHR ''.'') s"
    by (induction s) auto
  have atoms: "map atom_of s = map Lit s"
    using assms by (rule atoms_of_plain)
  show ?thesis
    unfolding new_RegExp_def atoms using ok by simp
qed

lemma buildChallengeFilters_search:
  assumes "search q = Some s" and "s \<noteq> []" and "new_RegExp rt s = Inr re"
  shows "\<exists>f. buildChallengeFilters rt q = Inr f \<and>
             or_regex f = Some [(''title'', re), (''description'', re), (''tags'', re)]"
  using assms by (simp add: buildChallengeFilters_def present_def str_of_def Let_def)

lemma regex_match_str: "regex_match re (JStr t) = re t"
  by (simp add: regex_match_def values_of_def)

lemma regex_match_tags: "regex_match re (JArr (map JStr ts)) = (\<exists>x\<in>set ts. re x)"
  by (induction ts) (auto simp: regex_match_def values_of_def)

text \<open>
  C8 (as amended). For a non-empty search string without regular-expression
  metacharacters, and a challenge whose title and description are strings and whose tags are
  an array of strings, the search criterion of the filter holds exactly when the string
  occurs, the case of letters aside, as a substring of the title, of the description or of
  some tag.
\<close>

theorem C8_search_plain:
  assumes "search q = Some s" and "s \<noteq> []" and "list_all (\<lambda>c. \<not> metachar c) s"
    and "d ''title'' = Some (JStr title)" and "d ''description'' = Some (JStr description)"
    and "d ''tags'' = Some (JArr (map JStr tags))"
  shows "search_criterion rt q d =
           Some (occurs_ignoring_case s title \<or> occurs_ignoring_case s description \<or>
                 (\<exists>x\<in>set tags. occurs_ignoring_case s x))"
proof -
  let ?re = "regex_search (map Lit s)"
  from buildChallengeFilters_search[OF assms(1,2) new_RegExp_plain[OF assms(3)]]
  obtain f where f: "buildChallengeFilters rt q = Inr f"
    "or_regex f = Some [(''title'', ?re), (''description'', ?re), (''tags'', ?re)]"
    by blast
  have "or_match [(''title'', ?re), (''description'', ?re), (''tags'', ?re)] d \<longleftrightarrow>
          ?re title \<or> ?re description \<or> (\<exists>x\<in>set tags. ?re x)"
    using assms(4-6) by (simp add: or_match_def fld_def regex_match_str regex_match_tags)
  then have "or_match [(''title'', ?re), (''description'', ?re), (''tags'', ?re)] d \<longleftrightarrow>
              occurs_ignoring_case s title \<or> occurs_ignoring_case s description \<or>
              (\<exists>x\<in>set tags. occurs_ignoring_case s x)"
    by (simp add: regex_search_literal occurs_ignoring_case_def)
  with f show ?thesis by (simp add: search_criterion_def)
qed

theorem C8_search_plain_witness:
  "search_criterion rt0 (no_query\<lparr> search := Some ''tREES'' \<rparr>) tree_doc = Some True"
proof -
  have occ: "occurs_ignoring_case ''tREES'' ''Trees''"
    by (simp add: occurs_ignoring_case_def upper_def sublist_Cons_right)
  from C8_search_plain [of "no_query\<lparr> search := Some ''tREES'' \<rparr>" "''tREES''" tree_doc
      "''Plant a tree''" "''One each''" "[''green'', ''Trees'']" rt0]
  have "search_criterion rt0 (no_query\<lparr> search := Some ''tREES'' \<rparr>) tree_doc =
           Some (occurs_ignoring_case ''tREES'' ''Plant a tree'' \<or>
                 occurs_ignoring_case ''tREES'' ''One each'' \<or>
                 (\<exists>x\<in>set [''green'', ''Trees'']. occurs_ignoring_case ''tREES'' x))"
    by (simp add: no_query_def metachar_def tree_doc_def)
  with occ show ?thesis by simp
qed

text \<open>
  C8 as stated fails: the search string is compiled as a regular expression, so
  \<^verbatim>\<open>p.a\<close> selects the challenge titled "Plant a tree", in which \<^verbatim>\<open>p.a\<close> occurs
  nowhere.
\<close>

theorem C8_counterexample:
  "search_criterion rt0 (no_query\<lparr> search := Some ''p.a'' \<rparr>) tree_doc = Some True
   \<and> \<not> occurs_ignoring_case ''p.a'' ''Plant a tree''
   \<and> \<not> occurs_ignoring_case ''p.a'' ''One each''
   \<and> \<not> occurs_ignoring_case ''p.a'' ''green''
   \<and> \<not> occurs_ignoring_case ''p.a'' ''Trees''"
proof -
  have "search_criterion rt0 (no_query\<lparr> search := Some ''p.a'' \<rparr>) tree_doc = Some True"
    by (simp add: search_criterion_def buildChallengeFilters_def no_query_def present_def
          str_of_def new_RegExp_def metachar_def atom_of_def or_match_def tree_doc_def fld_def
          regex_match_def values_of_def upper_def utf8_continuation_def Let_def)
  moreover have "\<not> occurs_ignoring_case ''p.a'' ''Plant a tree''"
    by (simp add: occurs_ignoring_case_def upper_def sublist_Cons_right)
  moreover have "\<not> occurs_ignoring_case ''p.a'' ''One each''"
    by (simp add: occurs_ignoring_case_def upper_def sublist_Cons_right)
  moreover have "\<not> occurs_ignoring_case ''p.a'' ''green''"
    by (simp add: occurs_ignoring_case_def upper_def sublist_Cons_right)
  moreover have "\<not> occurs_ignoring_case ''p.a'' ''Trees''"
    by (simp add: occurs_ignoring_case_def upper_def sublist_Cons_right)
  ultimately show ?thesis by simp
qed

text \<open>The date path of the builder does drop an unparseable string: the filter is the one
  built without the parameter.\<close>

lemma parseDateSafe_absent: "\<not> present v \<Longrightarrow> parseDateSafe rt (qval v) = None"
  by (cases v) (simp_all add: present_def qval_def parseDateSafe_def)

lemma buildChallengeFilters_invalid_startDate:
  assumes "startDate q = Some s" and "Date_time rt (JStr s) = None"
  shows "buildChallengeFilters rt q = buildChallengeFilters rt (q\<lparr> startDate := None \<rparr>)"
proof -
  have fr: "parseDateSafe rt (qval (startDate q)) = None"
    using assms by (simp add: qval_def parseDateSafe_def)
  have fr': "parseDateSafe rt (qval None) = None"
    by (simp add: qval_def parseDateSafe_def)
  have np: "\<not> present None" by (simp add: present_def)
  show ?thesis
  proof (cases "present (endDate q)")
    case True
    then show ?thesis
      by (auto simp: buildChallengeFilters_def Let_def fr fr' np split: sum.splits)
  next
    case False
    then show ?thesis
      by (auto simp: buildChallengeFilters_def Let_def fr fr' np parseDateSafe_absent split: sum.splits)
  qed
qed

lemma buildChallengeFilters_invalid_endDate:
  assumes "endDate q = Some s" and "Date_time rt (JStr s) = None"
  shows "buildChallengeFilters rt q = buildChallengeFilters rt (q\<lparr> endDate := None \<rparr>)"
proof -
  have to: "parseDateSafe rt (qval (endDate q)) = None"
    using assms by (simp add: qval_def parseDateSafe_def)
  have to': "parseDateSafe rt (qval None) = None"
    by (simp add: qval_def parseDateSafe_def)
  have np: "\<not> present None" by (simp add: present_def)
  show ?thesis
  proof (cases "present (startDate q)")
    case True
    then show ?thesis
      by (auto simp: buildChallengeFilters_def Let_def to to' np split: sum.splits)
  next
    case False
    then show ?thesis
      by (auto simp: buildChallengeFilters_def Let_def to to' np parseDateSafe_absent split: sum.splits)
  qed
qed

lemma parseInt_abc: "parseInt ''abc'' = NaN"
  by (simp add: parseInt_def white1_def white2_def white3_def unsigned_int_def digit_value_def)

lemma build_no_query:
  "buildChallengeFilters rt no_query =
     Inr \<lparr> isPublished_in = [JBool True, JNull], category_in = None,
           startDate_bounds = None, participants_bounds = None, or_regex = None \<rparr>"
  by (simp add: buildChallengeFilters_def no_query_def present_def Let_def)

lemma build_abc_query:
  "buildChallengeFilters rt abc_query =
     Inr \<lparr> isPublished_in = [JBool True, JNull], category_in = None,
           startDate_bounds = None,
           participants_bounds = Some \<lparr> gte = Some NaN, lte = None \<rparr>, or_regex = None \<rparr>"
  by (simp add: buildChallengeFilters_def abc_query_def no_query_def present_def str_of_def
        parseInt_abc Let_def)

text \<open>
  C7, at the input where the code departs from it: for \<^verbatim>\<open>participantsMin=abc\<close> the
  filter is built with the bound \<^verbatim>\<open>participants: { $gte: NaN }\<close>, which rejects a
  challenge with 5 participants that the filter of the empty query accepts. An invalid
  number is not ignored.
\<close>

theorem C7_invalid_number_constrains:
  "(case buildChallengeFilters rt abc_query of Inl err \<Rightarrow> None
      | Inr f \<Rightarrow> Some (participants_bounds f, matches f tree_doc))
     = Some (Some \<lparr> gte = Some NaN, lte = None \<rparr>, False)
   \<and> (case buildChallengeFilters rt no_query of Inl err \<Rightarrow> None
      | Inr f \<Rightarrow> Some (participants_bounds f, matches f tree_doc))
     = Some (None, True)"
  by (simp add: build_no_query build_abc_query matches_def in_match_def values_of_def
        tree_doc_def fld_def num_bounds_match_def)

theorem C7_invalid_number_constrains_witness:
  "\<not> (\<exists>f. buildChallengeFilters rt0 abc_query = Inr f \<and> matches f tree_doc)
   \<and> (\<exists>f. buildChallengeFilters rt0 no_query = Inr f \<and> matches f tree_doc)"
  using C7_invalid_number_constrains [of rt0]
  by (auto split: sum.splits)


section \<open>The listing route\<close>

lemma set_insert_sorted: "set (insert_sorted le x xs) = insert x (set xs)"
  by (induction xs) auto

lemma sorted_insert_sorted:
  assumes "total_preorder le" and "sorted_wrt le xs"
  shows "sorted_wrt le (insert_sorted le x xs)"
  using assms(2)
proof (induction xs)
  case Nil
  then show ?case by simp
next
  case (Cons y ys)
  from assms(1) have total: "\<And>a b. le a b \<or> le b a"
    and trans: "\<And>a b c. le a b \<Longrightarrow> le b c \<Longrightarrow> le a c"
    unfolding total_preorder_def by blast+
  show ?case
  proof (cases "le x y")
    case True
    with Cons.prems trans show ?thesis by auto
  next
    case False
    with total have "le y x" by blast
    with False Cons show ?thesis by (auto simp: set_insert_sorted)
  qed
qed

lemma sorted_sort_by: "total_preorder le \<Longrightarrow> sorted_wrt le (sort_by le xs)"
  unfolding sort_by_def by (induction xs) (simp_all add: sorted_insert_sorted)

lemma sorted_cursor_window:
  "sorted_wrt le xs \<Longrightarrow> cursor_window sk lim xs = Inr ys \<Longrightarrow> sorted_wrt le ys"
  by (auto simp: cursor_window_def sorted_wrt_drop sorted_wrt_take
        split: jsnum.splits if_splits)

lemma total_preorder_startDate_le:
  "total_preorder (bson_le rt) \<Longrightarrow> total_preorder (startDate_le rt)"
  unfolding total_preorder_def startDate_le_def by blast

lemma list_challenges_success:
  assumes "list_challenges rt fault q st = Success code r"
  obtains f where "buildChallengeFilters rt q = Inr f"
    and "cursor_window (skip_of (effective_page q) (effective_limit q)) (effective_limit q)
           (sort_by (startDate_le rt) (filter (matches f) (challenges st))) = Inr (items r)"
    and "res_page r = effective_page q" and "res_limit r = effective_limit q"
    and "total r = length (filter (matches f) (challenges st))"
proof -
  from assms obtain f where f: "buildChallengeFilters rt q = Inr f"
    by (cases "buildChallengeFilters rt q") (simp_all add: list_challenges_def Let_def)
  let ?w = "cursor_window (skip_of (effective_page q) (effective_limit q)) (effective_limit q)
           (sort_by (startDate_le rt) (filter (matches f) (challenges st)))"
  from assms f obtain found where w: "?w = Inr found"
    by (cases ?w) (simp_all add: list_challenges_def Let_def split: if_splits)
  from assms f w have "r = \<lparr> res_page = effective_page q, res_limit = effective_limit q,
        total = length (filter (matches f) (challenges st)), items = found \<rparr>"
    by (simp add: list_challenges_def Let_def split: if_splits)
  with f w show thesis by (intro that[of f]) simp_all
qed

lemma effective_page_ge_1: "effective_page q = Num n \<Longrightarrow> 1 \<le> n"
  by (auto simp: effective_page_def Math_max_def split: jsnum.splits)

lemma effective_limit_le_100: "effective_limit q = Num n \<Longrightarrow> n \<le> 100"
  by (auto simp: effective_limit_def Math_min_def split: jsnum.splits)

text \<open>
  What the route does clamp and order: the effective page, when it is a number, is at least
  1, and is \<^verbatim>\<open>max(1, n)\<close> when the page parameter (or its default "1") parses to
  \<open>n\<close>; the effective limit, when it is a number, is at most 100, and is
  \<^verbatim>\<open>min(100, n)\<close> when the limit parameter (or its default "10") parses to \<open>n\<close>. A
  listing that succeeds reports that page and limit, and its items are sorted by
  \<^verbatim>\<open>startDate\<close> ascending in the server's comparison order (a total preorder).
\<close>

lemma listing_page_limit_sorted:
  "(\<forall>n. effective_page q = Num n \<longrightarrow> 1 \<le> n)
   \<and> (\<forall>n. effective_limit q = Num n \<longrightarrow> n \<le> 100)
   \<and> (\<forall>n. parseInt (if present (page q) then str_of (page q) else ''1'') = Num n
          \<longrightarrow> effective_page q = Num (max 1 n))
   \<and> (\<forall>n. parseInt (if present (limit q) then str_of (limit q) else ''10'') = Num n
          \<longrightarrow> effective_limit q = Num (min 100 n))
   \<and> (total_preorder (bson_le rt) \<and> list_challenges rt fault q st = Success code r
          \<longrightarrow> res_page r = effective_page q \<and> res_limit r = effective_limit q \<and>
              sorted_wrt (startDate_le rt) (items r))"
proof -
  have sorted: "res_page r = effective_page q \<and> res_limit r = effective_limit q \<and>
              sorted_wrt (startDate_le rt) (items r)"
    if tp: "total_preorder (bson_le rt)" and ok: "list_challenges rt fault q st = Success code r"
  proof -
    from ok obtain f where
      w: "cursor_window (skip_of (effective_page q) (effective_limit q)) (effective_limit q)
           (sort_by (startDate_le rt) (filter (matches f) (challenges st))) = Inr (items r)"
      and pl: "res_page r = effective_page q" "res_limit r = effective_limit q"
      by (rule list_challenges_success)
    from tp have "sorted_wrt (startDate_le rt)
        (sort_by (startDate_le rt) (filter (matches f) (challenges st)))"
      by (intro sorted_sort_by total_preorder_startDate_le)
    from sorted_cursor_window[OF this w] pl show ?thesis by simp
  qed
  have p: "effective_page q = Num (max 1 n)"
    if "parseInt (if present (page q) then str_of (page q) else ''1'') = Num n" for n
    using that by (simp add: effective_page_def Math_max_def)
  have l: "effective_limit q = Num (min 100 n)"
    if "parseInt (if present (limit q) then str_of (limit q) else ''10'') = Num n" for n
    using that by (simp add: effective_limit_def Math_min_def)
  from sorted p l effective_page_ge_1 effective_limit_le_100 show ?thesis by blast
qed

lemma bson_le_rt0: "bson_le rt0 a b = rank_le (sample_rank a) (sample_rank b)"
  by (cases a; cases b) (simp_all add: rt0_def rank_le_def sample_rank_def)

lemma total_preorder_rt0: "total_preorder (bson_le rt0)"
  unfolding total_preorder_def bson_le_rt0 rank_le_def by auto

lemma parseInt_samples:
  "parseInt ''0'' = Num 0" "parseInt ''1'' = Num 1" "parseInt ''10'' = Num 10"
  by (simp_all add: parseInt_def white1_def white2_def white3_def unsigned_int_def digit_value_def
        negate_def js_number_exact)

text \<open>\<^verbatim>\<open>parseInt\<close> returns a double, and skips the white space of Unicode.\<close>

lemma parseInt_rounds: "parseInt ''9007199254740993'' = Num 9007199254740992"
  by (simp add: parseInt_def white1_def white2_def white3_def unsigned_int_def digit_value_def
        js_number_def round_double_2_53_1)

lemma parseInt_skips_white_space:
  "parseInt [CHR 0xC2, CHR 0xA0, CHR 0x09, CHR 0xE2, CHR 0x80, CHR 0xA8, CHR ''7''] = Num 7"
  by (simp add: parseInt_def white1_def white2_def white3_def unsigned_int_def digit_value_def
        js_number_exact)

lemma matches_no_filter:
  "matches \<lparr> isPublished_in = [JBool True, JNull], category_in = None,
           startDate_bounds = None, participants_bounds = None, or_regex = None \<rparr> d
     = (d ''isPublished'' = None \<or> in_match [JBool True, JNull] (fld d ''isPublished''))"
  by (auto simp: matches_def in_match_def values_of_def fld_def split: option.splits)

lemma build_zero_limit:
  "buildChallengeFilters rt zero_limit =
     Inr \<lparr> isPublished_in = [JBool True, JNull], category_in = None,
           startDate_bounds = None, participants_bounds = None, or_regex = None \<rparr>"
  by (simp add: buildChallengeFilters_def zero_limit_def no_query_def present_def Let_def)

lemma sort_by_sorted: "sorted_wrt le xs \<Longrightarrow> sort_by le xs = xs"
proof (induction xs)
  case Nil
  then show ?case by (simp add: sort_by_def)
next
  case (Cons x xs)
  then have "sort_by le xs = xs" by simp
  then have "sort_by le (x # xs) = insert_sorted le x xs" by (simp add: sort_by_def)
  with Cons.prems show ?case by (cases xs) simp_all
qed

lemma long_store_published:
  "filter (matches \<lparr> isPublished_in = [JBool True, JNull], category_in = None,
           startDate_bounds = None, participants_bounds = None, or_regex = None \<rparr>)
     (challenges (long_store n)) = map challenge_no [0 ..< n]"
  by (simp add: matches_no_filter long_store_def challenge_no_def filter_map o_def)

lemma long_store_sorted: "sorted_wrt (startDate_le rt0) (map challenge_no [0 ..< n])"
  by (simp add: sorted_wrt_map startDate_le_def sort_value_def challenge_no_def
        sorted_wrt_mono_rel[OF _ sorted_wrt_upt])

text \<open>
  C6, at the input where the code departs from it: for \<^verbatim>\<open>limit=0\<close> the effective limit
  is 0, below the range [1, 100] (the limit is clamped from above only), and the cursor
  takes a limit of 0 as no limit: the response reports the limit 0 and carries every
  challenge that matches the filter, in whatever store.
\<close>

theorem C6_limit_zero:
  "effective_page zero_limit = Num 1 \<and> effective_limit zero_limit = Num 0 \<and>
   list_challenges rt False zero_limit st =
     Success 200
       \<lparr> res_page = Num 1, res_limit = Num 0,
         total = length (filter (matches \<lparr> isPublished_in = [JBool True, JNull], category_in = None,
                     startDate_bounds = None, participants_bounds = None, or_regex = None \<rparr>)
                   (challenges st)),
         items = sort_by (startDate_le rt)
                   (filter (matches \<lparr> isPublished_in = [JBool True, JNull], category_in = None,
                       startDate_bounds = None, participants_bounds = None, or_regex = None \<rparr>)
                     (challenges st)) \<rparr>"
proof -
  have pg: "effective_page zero_limit = Num 1" "effective_limit zero_limit = Num 0"
    by (simp_all add: effective_page_def effective_limit_def zero_limit_def no_query_def
          present_def str_of_def parseInt_samples Math_max_def Math_min_def)
  have sk: "skip_of (Num 1) (Num 0) = Num 0"
    by (simp add: skip_of_def js_minus_one_def js_times_def js_number_exact)
  have w: "cursor_window (Num 0) (Num 0) xs = Inr xs" for xs :: "doc list"
    by (simp add: cursor_window_def)
  show ?thesis
    by (simp add: list_challenges_def build_zero_limit pg sk w)
qed

theorem C6_limit_zero_witness:
  "list_challenges rt0 False zero_limit (long_store 101) =
     Success 200 \<lparr> res_page = Num 1, res_limit = Num 0, total = 101,
                   items = map challenge_no [0 ..< 101] \<rparr>
   \<and> length (map challenge_no [0 ..< 101]) = 101"
  using C6_limit_zero [of rt0 "long_store 101"]
  by (simp add: long_store_published sort_by_sorted long_store_sorted del: upt_rec_numeral)


end
